theory Spec2Isabelle
  imports Complex_Main
begin

section \<open>COSMO-CLM2 case configuration: dates, namelists and the restart chain\<close>

text \<open>
  The development embeds \<^verbatim>\<open>src/COSMO_CLM2_tools/cosmo_clm2.py\<close>: the function
  \<^verbatim>\<open>add_time_from_str\<close> and the methods \<^verbatim>\<open>_compute_run_dates\<close>,
  \<^verbatim>\<open>_check_gribout\<close>, \<^verbatim>\<open>_get_gribouts\<close>, \<^verbatim>\<open>_build_proc_config\<close>,
  \<^verbatim>\<open>write_open_nml\<close>, \<^verbatim>\<open>_update_controller\<close> and \<^verbatim>\<open>set_next_run\<close> of class
  \<^verbatim>\<open>case\<close>, together with the pieces of Python's \<^verbatim>\<open>datetime\<close>, \<^verbatim>\<open>int\<close>,
  \<^verbatim>\<open>str\<close> and \<^verbatim>\<open>re\<close> they call.
\<close>

subsection \<open>Exceptions\<close>

text \<open>
  A Python exception is a value. \<open>ValueError\<close> carries the message: the source's own text
  for the exceptions the program raises itself, a short phrase for those raised by the
  library (\<^verbatim>\<open>int()\<close>, \<^verbatim>\<open>strptime\<close>, \<^verbatim>\<open>datetime()\<close>).
\<close>

datatype error =
    ValueError string
  | KeyError string
  | IndexError
  | OverflowError
  | TypeError

subsection \<open>Decimal text: \<^verbatim>\<open>int(s)\<close> and \<^verbatim>\<open>str(n)\<close>\<close>

definition digit_val :: "char \<Rightarrow> int option" where
  "digit_val c = map_of (zip ''0123456789'' [0, 1, 2, 3, 4, 5, 6, 7, 8, 9]) c"

definition is_space :: "char \<Rightarrow> bool" where
  "is_space c \<longleftrightarrow> c \<in> set [CHR '' '', CHR 0x09, CHR 0x0A, CHR 0x0B, CHR 0x0C, CHR 0x0D]"

definition strip :: "string \<Rightarrow> string" where
  "strip s = rev (dropWhile is_space (rev (dropWhile is_space s)))"

text \<open>
  The digits of an integer literal, most significant first, with the value read so far.
  Python 3 allows one underscore between two digits; \<open>after_digit\<close> records that the
  previous character was a digit.
\<close>

fun digits_val :: "bool \<Rightarrow> int \<Rightarrow> string \<Rightarrow> int option" where
  "digits_val after_digit acc [] = (if after_digit then Some acc else None)"
| "digits_val after_digit acc (c # cs) =
     (case digit_val c of
        Some v \<Rightarrow> digits_val True (acc * 10 + v) cs
      | None \<Rightarrow>
          if c = CHR ''_'' \<and> after_digit \<and> cs \<noteq> [] \<and> digit_val (hd cs) \<noteq> None
          then digits_val False acc cs
          else None)"

text \<open>
  \<^verbatim>\<open>int(s)\<close> on a string, base 10: surrounding white space is dropped, one sign is
  allowed, at least one digit is required; anything else is a \<open>ValueError\<close>. Only ASCII
  digits and ASCII white space are modelled.
\<close>

definition py_int :: "string \<Rightarrow> error + int" where
  "py_int s =
     (let t = strip s;
          neg = (t \<noteq> [] \<and> hd t = CHR ''-'');
          u = (if t \<noteq> [] \<and> (hd t = CHR ''-'' \<or> hd t = CHR ''+'') then tl t else t)
      in case digits_val False 0 u of
           None \<Rightarrow> Inl (ValueError ''invalid literal for int() with base 10'')
         | Some v \<Rightarrow> Inr (if neg then - v else v))"

definition digit_char :: "int \<Rightarrow> char" where
  "digit_char d =
     (if d = 0 then CHR ''0'' else if d = 1 then CHR ''1'' else if d = 2 then CHR ''2''
      else if d = 3 then CHR ''3'' else if d = 4 then CHR ''4'' else if d = 5 then CHR ''5''
      else if d = 6 then CHR ''6'' else if d = 7 then CHR ''7'' else if d = 8 then CHR ''8''
      else CHR ''9'')"

text \<open>The decimal digits of a non-negative integer.\<close>

function str_nonneg :: "int \<Rightarrow> string" where
  "str_nonneg n =
     (if n < 10 then [digit_char (n mod 10)]
      else str_nonneg (n div 10) @ [digit_char (n mod 10)])"
  by pat_completeness auto
termination
  by (relation "measure nat") auto

declare str_nonneg.simps [simp del]

text \<open>\<^verbatim>\<open>str(n)\<close> and the format \<^verbatim>\<open>{:d}\<close> for an integer.\<close>

definition str_int :: "int \<Rightarrow> string" where
  "str_int i = (if i < 0 then CHR ''-'' # str_nonneg (- i) else str_nonneg i)"

text \<open>A non-negative number written with at least \<open>w\<close> digits (\<^verbatim>\<open>%02d\<close>, \<^verbatim>\<open>%04d\<close>).\<close>

definition zero_pad :: "nat \<Rightarrow> int \<Rightarrow> string" where
  "zero_pad w i = (let s = str_int i in replicate (w - length s) CHR ''0'' @ s)"

subsection \<open>\<^verbatim>\<open>datetime\<close> and \<^verbatim>\<open>timedelta\<close>\<close>

text \<open>
  A naive \<^verbatim>\<open>datetime\<close> is its seven fields. A \<^verbatim>\<open>timedelta\<close> is its exact length in
  microseconds; the library keeps it as days, seconds and microseconds and refuses more than
  999999999 days in either direction.
\<close>

record datetime =
  year :: int
  month :: int
  day :: int
  hour :: int
  minute :: int
  second :: int
  microsecond :: int

type_synonym timedelta = int

definition us_per_day :: int where
  "us_per_day = 86400000000"

definition mk_timedelta :: "int \<Rightarrow> error + timedelta" where
  "mk_timedelta us =
     (if - 999999999 \<le> us div us_per_day \<and> us div us_per_day \<le> 999999999
      then Inr us else Inl OverflowError)"

definition timedelta_days :: "int \<Rightarrow> error + timedelta" where
  "timedelta_days n = mk_timedelta (n * us_per_day)"

definition timedelta_hours :: "int \<Rightarrow> error + timedelta" where
  "timedelta_hours n = mk_timedelta (n * 3600000000)"

text \<open>Rounding to the nearest integer, ties to the even one, as \<^verbatim>\<open>timedelta\<close> rounds
  a fractional number of microseconds.\<close>

definition round_half_even :: "rat \<Rightarrow> int" where
  "round_half_even x =
     (let f = \<lfloor>x\<rfloor>; r = x - of_int f
      in if r < 1 / 2 then f else if 1 / 2 < r then f + 1
         else if even f then f else f + 1)"

definition timedelta_seconds :: "rat \<Rightarrow> error + timedelta" where
  "timedelta_seconds q = mk_timedelta (round_half_even (q * 1000000))"

text \<open>\<^verbatim>\<open>td.total_seconds() // 3600.0\<close>: the whole hours of a duration, rounded down. The
  code divides floating point numbers; the model is exact, which is the same as long as the
  duration in microseconds fits a double (some 285 years).\<close>

definition total_hours :: "timedelta \<Rightarrow> int" where
  "total_hours td = td div 3600000000"

definition total_seconds :: "timedelta \<Rightarrow> rat" where
  "total_seconds td = of_int td / 1000000"

definition is_leap :: "int \<Rightarrow> bool" where
  "is_leap y \<longleftrightarrow> y mod 4 = 0 \<and> (y mod 100 \<noteq> 0 \<or> y mod 400 = 0)"

definition days_in_month_common :: "int \<Rightarrow> int" where
  "days_in_month_common m =
     (if m = 2 then 28 else if m = 4 \<or> m = 6 \<or> m = 9 \<or> m = 11 then 30 else 31)"

definition days_in_month :: "int \<Rightarrow> int \<Rightarrow> int" where
  "days_in_month y m = (if m = 2 \<and> is_leap y then 29 else days_in_month_common m)"

definition days_before_year :: "int \<Rightarrow> int" where
  "days_before_year y = (y - 1) * 365 + (y - 1) div 4 - (y - 1) div 100 + (y - 1) div 400"

definition days_before_month_common :: "int \<Rightarrow> int" where
  "days_before_month_common m =
     (if m \<le> 1 then 0 else if m = 2 then 31 else if m = 3 then 59 else if m = 4 then 90
      else if m = 5 then 120 else if m = 6 then 151 else if m = 7 then 181
      else if m = 8 then 212 else if m = 9 then 243 else if m = 10 then 273
      else if m = 11 then 304 else 334)"

definition days_before_month :: "int \<Rightarrow> int \<Rightarrow> int" where
  "days_before_month y m = days_before_month_common m + (if 2 < m \<and> is_leap y then 1 else 0)"

definition ymd2ord :: "int \<Rightarrow> int \<Rightarrow> int \<Rightarrow> int" where
  "ymd2ord y m d = days_before_year y + days_before_month y m + d"

definition max_ordinal :: int where
  "max_ordinal = 3652059"

text \<open>The calendar date of a day number (day 1 is 0001-01-01), in cycles of 400, 100, 4
  and 1 years as the library computes it.\<close>

definition ord2ymd :: "int \<Rightarrow> int \<times> int \<times> int" where
  "ord2ymd n0 =
     (let n = n0 - 1;
          n400 = n div 146097; n = n mod 146097;
          n100 = n div 36524; n = n mod 36524;
          n4 = n div 1461; n = n mod 1461;
          n1 = n div 365; n = n mod 365;
          y = n400 * 400 + 1 + n100 * 100 + n4 * 4 + n1
      in if n1 = 4 \<or> n100 = 4 then (y - 1, 12, 31)
         else
           let leapyear = (n1 = 3 \<and> (n4 \<noteq> 24 \<or> n100 = 3));
               m = (n + 50) div 32;
               preceding = days_before_month_common m + (if 2 < m \<and> leapyear then 1 else 0)
           in if n < preceding
              then (y, m - 1,
                    n - (preceding - (days_in_month_common (m - 1)
                                      + (if m - 1 = 2 \<and> leapyear then 1 else 0))) + 1)
              else (y, m, n - preceding + 1))"

text \<open>The constructor \<^verbatim>\<open>datetime(y, m, d, h, mi, s, us)\<close> checks every field. An
  argument too large for a machine integer is an \<open>OverflowError\<close> in the library; the
  model reports it as out of range like any other.\<close>

definition mk_datetime :: "int \<Rightarrow> int \<Rightarrow> int \<Rightarrow> int \<Rightarrow> int \<Rightarrow> int \<Rightarrow> int \<Rightarrow> error + datetime" where
  "mk_datetime y m d h mi s us =
     (if y < 1 \<or> 9999 < y then Inl (ValueError ''year is out of range'')
      else if m < 1 \<or> 12 < m then Inl (ValueError ''month must be in 1..12'')
      else if d < 1 \<or> days_in_month y m < d then Inl (ValueError ''day is out of range for month'')
      else if h < 0 \<or> 23 < h then Inl (ValueError ''hour must be in 0..23'')
      else if mi < 0 \<or> 59 < mi then Inl (ValueError ''minute must be in 0..59'')
      else if s < 0 \<or> 59 < s then Inl (ValueError ''second must be in 0..59'')
      else if us < 0 \<or> 999999 < us then Inl (ValueError ''microsecond must be in 0..999999'')
      else Inr \<lparr>year = y, month = m, day = d, hour = h, minute = mi, second = s,
                microsecond = us\<rparr>)"

text \<open>Microseconds since the start of day 0, the scale on which dates are added and
  subtracted.\<close>

definition dt_us :: "datetime \<Rightarrow> int" where
  "dt_us t =
     ymd2ord (year t) (month t) (day t) * us_per_day
     + ((hour t * 60 + minute t) * 60 + second t) * 1000000 + microsecond t"

text \<open>\<^verbatim>\<open>date + timedelta\<close>: \<open>OverflowError\<close> outside 0001-01-01 .. 9999-12-31.\<close>

definition dt_add :: "datetime \<Rightarrow> timedelta \<Rightarrow> error + datetime" where
  "dt_add t td =
     (let total = dt_us t + td;
          days = total div us_per_day;
          rest = total mod us_per_day;
          secs = rest div 1000000
      in if 0 < days \<and> days \<le> max_ordinal
         then (case ord2ymd days of
                 (y, m, d) \<Rightarrow>
                   Inr \<lparr>year = y, month = m, day = d, hour = secs div 3600,
                        minute = secs mod 3600 div 60, second = secs mod 60,
                        microsecond = rest mod 1000000\<rparr>)
         else Inl OverflowError)"

text \<open>\<^verbatim>\<open>date1 - date2\<close>.\<close>

definition dt_sub :: "datetime \<Rightarrow> datetime \<Rightarrow> timedelta" where
  "dt_sub a b = dt_us a - dt_us b"

text \<open>Dates are ordered field by field, the year first.\<close>

fun lex_less :: "int list \<Rightarrow> int list \<Rightarrow> bool" where
  "lex_less (x # xs) (y # ys) = (x < y \<or> (x = y \<and> lex_less xs ys))"
| "lex_less [] (y # ys) = True"
| "lex_less xs [] = False"

definition dt_fields :: "datetime \<Rightarrow> int list" where
  "dt_fields t = [year t, month t, day t, hour t, minute t, second t, microsecond t]"

definition dt_less :: "datetime \<Rightarrow> datetime \<Rightarrow> bool" where
  "dt_less a b = lex_less (dt_fields a) (dt_fields b)"

text \<open>\<^verbatim>\<open>min(a, b)\<close> returns its first argument unless the second is smaller.\<close>

definition dt_min :: "datetime \<Rightarrow> datetime \<Rightarrow> datetime" where
  "dt_min a b = (if dt_less b a then b else a)"

subsection \<open>\<^verbatim>\<open>strptime\<close> and \<^verbatim>\<open>strftime\<close>\<close>

text \<open>
  The three formats of the module are lists of directives: \<^verbatim>\<open>%Y\<close>, \<^verbatim>\<open>%m\<close>,
  \<^verbatim>\<open>%d\<close>, \<^verbatim>\<open>%H\<close> and literal characters.
\<close>

datatype directive = DirY | Dirm | Dird | DirH | Lit char

definition date_fmt_in :: "directive list" where
  "date_fmt_in = [DirY, Lit CHR ''-'', Dirm, Lit CHR ''-'', Dird, Lit CHR ''-'', DirH]"

definition date_fmt_cosmo :: "directive list" where
  "date_fmt_cosmo = [DirY, Dirm, Dird, DirH]"

definition date_fmt_cesm :: "directive list" where
  "date_fmt_cesm = [DirY, Dirm, Dird]"

definition one_digit :: "string \<Rightarrow> (int \<times> string) option" where
  "one_digit s =
     (case s of [] \<Rightarrow> None
      | a # r \<Rightarrow> (case digit_val a of None \<Rightarrow> None | Some x \<Rightarrow> Some (x, r)))"

definition two_digits :: "string \<Rightarrow> (int \<times> int \<times> string) option" where
  "two_digits s =
     (case one_digit s of None \<Rightarrow> None
      | Some (x, r) \<Rightarrow> (case one_digit r of None \<Rightarrow> None | Some (y, r') \<Rightarrow> Some (x, y, r')))"

text \<open>
  \<^verbatim>\<open>strptime\<close> turns the format into a regular expression and takes its first match
  from the start of the string. \<open>alts\<close> lists, in the order the expression tries them, the
  ways one directive can match a prefix, each with the value read and the rest of the string:
  \<^verbatim>\<open>%Y\<close> is \<^verbatim>\<open>\d\d\d\d\<close>, \<^verbatim>\<open>%m\<close> is \<^verbatim>\<open>1[0-2]|0[1-9]|[1-9]\<close>,
  \<^verbatim>\<open>%d\<close> is \<^verbatim>\<open>3[0-1]|[1-2]\d|0[1-9]|[1-9]| [1-9]\<close> and
  \<^verbatim>\<open>%H\<close> is \<^verbatim>\<open>2[0-3]|[0-1]\d|\d\<close>.
\<close>

fun alts :: "directive \<Rightarrow> string \<Rightarrow> (int \<times> string) list" where
  "alts DirY s =
     (case two_digits s of None \<Rightarrow> []
      | Some (a, b, r) \<Rightarrow>
          (case two_digits r of None \<Rightarrow> []
           | Some (c, d, r') \<Rightarrow> [(1000 * a + 100 * b + 10 * c + d, r')]))"
| "alts Dirm s =
     (case two_digits s of None \<Rightarrow> []
      | Some (a, b, r) \<Rightarrow>
          if a = 1 \<and> b \<le> 2 then [(10 + b, r)]
          else if a = 0 \<and> 1 \<le> b then [(b, r)] else [])
     @ (case one_digit s of None \<Rightarrow> []
        | Some (a, r) \<Rightarrow> if 1 \<le> a then [(a, r)] else [])"
| "alts Dird s =
     (case two_digits s of None \<Rightarrow> []
      | Some (a, b, r) \<Rightarrow>
          if a = 3 \<and> b \<le> 1 then [(30 + b, r)]
          else if a = 1 \<or> a = 2 then [(10 * a + b, r)]
          else if a = 0 \<and> 1 \<le> b then [(b, r)] else [])
     @ (case one_digit s of None \<Rightarrow> []
        | Some (a, r) \<Rightarrow> if 1 \<le> a then [(a, r)] else [])
     @ (case s of [] \<Rightarrow> []
        | c # r \<Rightarrow>
            if c = CHR '' '' then
              (case one_digit r of None \<Rightarrow> []
               | Some (a, r') \<Rightarrow> if 1 \<le> a then [(a, r')] else [])
            else [])"
| "alts DirH s =
     (case two_digits s of None \<Rightarrow> []
      | Some (a, b, r) \<Rightarrow>
          if a = 2 \<and> b \<le> 3 then [(20 + b, r)]
          else if a = 0 \<or> a = 1 then [(10 * a + b, r)] else [])
     @ (case one_digit s of None \<Rightarrow> [] | Some (a, r) \<Rightarrow> [(a, r)])"
| "alts (Lit c) s = (case s of [] \<Rightarrow> [] | c' # r \<Rightarrow> if c' = c then [(0, r)] else [])"

text \<open>The fields read so far: year, month, day, hour.\<close>

type_synonym ymdh = "int \<times> int \<times> int \<times> int"

fun put :: "directive \<Rightarrow> int \<Rightarrow> ymdh \<Rightarrow> ymdh" where
  "put DirY v (y, m, d, h) = (v, m, d, h)"
| "put Dirm v (y, m, d, h) = (y, v, d, h)"
| "put Dird v (y, m, d, h) = (y, m, v, h)"
| "put DirH v (y, m, d, h) = (y, m, d, v)"
| "put (Lit c) v (y, m, d, h) = (y, m, d, h)"

text \<open>All matches of a format against a prefix of the string, the expression's first
  choice first.\<close>

fun match_fmt :: "directive list \<Rightarrow> ymdh \<Rightarrow> string \<Rightarrow> (ymdh \<times> string) list" where
  "match_fmt [] acc s = [(acc, s)]"
| "match_fmt (f # fs) acc s =
     concat (map (\<lambda>vr. match_fmt fs (put f (fst vr) acc) (snd vr)) (alts f s))"

text \<open>
  \<^verbatim>\<open>datetime.strptime(s, fmt)\<close>: the first match must use the whole string, and its
  fields must form a date. Fields the format does not name keep the defaults 1900-01-01 00.
\<close>

definition strptime :: "string \<Rightarrow> directive list \<Rightarrow> error + datetime" where
  "strptime s fmt =
     (case match_fmt fmt (1900, 1, 1, 0) s of
        [] \<Rightarrow> Inl (ValueError ''time data does not match format'')
      | ((y, m, d, h), r) # _ \<Rightarrow>
          if r \<noteq> [] then Inl (ValueError ''unconverted data remains'')
          else mk_datetime y m d h 0 0 0)"

text \<open>\<^verbatim>\<open>date.strftime(fmt)\<close>, the year written with four digits. That is what every
  platform writes from the year 1000 on; for earlier years the C library may leave out the
  leading zeros, which the model does not follow.\<close>

fun strftime_dir :: "datetime \<Rightarrow> directive \<Rightarrow> string" where
  "strftime_dir t DirY = zero_pad 4 (year t)"
| "strftime_dir t Dirm = zero_pad 2 (month t)"
| "strftime_dir t Dird = zero_pad 2 (day t)"
| "strftime_dir t DirH = zero_pad 2 (hour t)"
| "strftime_dir t (Lit c) = [c]"

definition strftime :: "datetime \<Rightarrow> directive list \<Rightarrow> string" where
  "strftime t fmt = concat (map (strftime_dir t) fmt)"

subsection \<open>\<^verbatim>\<open>add_time_from_str\<close>\<close>

text \<open>
  The first loop of \<^verbatim>\<open>add_time_from_str\<close> over \<^verbatim>\<open>enumerate(dt_str)\<close>. The state is
  \<open>(ky, ny, km, nm)\<close>. At a \<^verbatim>\<open>'y'\<close> in position \<open>k\<close> it reads
  \<^verbatim>\<open>int(dt_str[0:k])\<close>, at an \<^verbatim>\<open>'m'\<close> it reads \<^verbatim>\<open>int(dt_str[ky:k])\<close>; a failing
  \<^verbatim>\<open>int\<close> ends the function.
\<close>

fun ym_loop :: "string \<Rightarrow> (nat \<times> char) list \<Rightarrow> nat \<times> int \<times> nat \<times> int
    \<Rightarrow> error + (nat \<times> int \<times> nat \<times> int)" where
  "ym_loop dt_str [] st = Inr st"
| "ym_loop dt_str ((k, c) # rest) (ky, ny, km, nm) =
     (case (if c = CHR ''y''
            then (case py_int (take k dt_str) of Inl e \<Rightarrow> Inl e | Inr v \<Rightarrow> Inr (k, v))
            else Inr (ky, ny)) of
        Inl e \<Rightarrow> Inl e
      | Inr (ky', ny') \<Rightarrow>
          (case (if c = CHR ''m''
                 then (case py_int (drop ky' (take k dt_str)) of
                         Inl e \<Rightarrow> Inl e | Inr v \<Rightarrow> Inr (k, v))
                 else Inr (km, nm)) of
             Inl e \<Rightarrow> Inl e
           | Inr (km', nm') \<Rightarrow> ym_loop dt_str rest (ky', ny', km', nm')))"

text \<open>The second loop, for \<^verbatim>\<open>'d'\<close>, with state \<open>(kd, nd)\<close>.\<close>

fun d_loop :: "string \<Rightarrow> (nat \<times> char) list \<Rightarrow> nat \<times> int \<Rightarrow> error + (nat \<times> int)" where
  "d_loop dt_str [] st = Inr st"
| "d_loop dt_str ((k, c) # rest) (kd, nd) =
     (if c = CHR ''d''
      then (case py_int (take k dt_str) of
              Inl e \<Rightarrow> Inl e
            | Inr v \<Rightarrow> d_loop dt_str rest (k, v))
      else d_loop dt_str rest (kd, nd))"

definition bad_increment :: "string \<Rightarrow> error" where
  "bad_increment dt_str =
     ValueError (''date increment '' @ [CHR 0x27] @ dt_str @ [CHR 0x27] @ '' doesn''
                 @ [CHR 0x27] @ ''t have the correct format'')"

definition add_time_from_str :: "datetime \<Rightarrow> string \<Rightarrow> error + datetime" where
  "add_time_from_str date1 dt_str =
     (case ym_loop dt_str (enumerate 0 dt_str) (0, 0, 0, 0) of
        Inl e \<Rightarrow> Inl e
      | Inr (ky, ny, km, nm) \<Rightarrow>
          if km = 0 \<and> ky = 0 then
            (case d_loop dt_str (enumerate 0 dt_str) (0, 0) of
               Inl e \<Rightarrow> Inl e
             | Inr (kd, nd) \<Rightarrow>
                 if kd = 0 then Inl (bad_increment dt_str)
                 else (case timedelta_days nd of
                         Inl e \<Rightarrow> Inl e
                       | Inr td \<Rightarrow> dt_add date1 td))
          else
            mk_datetime (year date1 + (ny + (nm + month date1 - 1) div 12))
              ((nm + month date1 - 1) mod 12 + 1) (day date1) (hour date1) 0 0 0)"

subsection \<open>Namelists\<close>

text \<open>
  The namelist files the methods touch, with the groups and parameters they read or write.
  A parameter that may be missing from its group is an \<open>option\<close>, and reading a missing one
  is a \<open>KeyError\<close>. Numbers that the files may hold as reals (\<^verbatim>\<open>dt\<close>, \<^verbatim>\<open>stop_n\<close>, the
  entries of \<^verbatim>\<open>hcomb\<close>) are exact rationals; \<^verbatim>\<open>hstart\<close> is a whole number of hours, which
  is what \<^verbatim>\<open>set_next_run\<close> writes. The \<^verbatim>\<open>gribout\<close> entry of \<^verbatim>\<open>INPUT_IO\<close> is absent, one
  block, or a list of blocks.
\<close>

record gribout_block =
  hcomb :: "rat list option"
  lwrite_const :: "bool option"
  ydir :: "string option"

datatype gribout_val = Block gribout_block | Blocks "gribout_block list"

record runctl_group =
  ydate_ini :: "string option"
  ydate_end :: "string option"
  hstart :: "int option"
  nstop :: "int option"
  dt :: "rat option"
  nprocx :: "int option"
  nprocy :: "int option"

record INPUT_ORG_file =
  runctl :: runctl_group

record gribin_group =
  ydirini :: "string option"

record ioctl_group =
  ydir_restart_out :: "string option"
  ngribout :: "int option"

record INPUT_IO_file =
  gribin :: gribin_group
  ioctl :: ioctl_group
  gribout :: "gribout_val option"

record seq_timemgr_inparm_group =
  start_ymd :: "int option"
  stop_n :: "rat option"

record seq_infodata_inparm_group =
  start_type :: "string option"

record ccsm_pes_group =
  lnd_ntasks :: "int option"

record drv_in_file =
  seq_timemgr_inparm :: seq_timemgr_inparm_group
  seq_infodata_inparm :: seq_infodata_inparm_group
  ccsm_pes :: ccsm_pes_group

record nmldict =
  INPUT_ORG :: INPUT_ORG_file
  INPUT_IO :: INPUT_IO_file
  drv_in :: drv_in_file

subsection \<open>The case object\<close>

text \<open>
  The attributes of a \<^verbatim>\<open>case\<close> object that the methods use, and the files of the case
  directory they write. \<open>nml\<close> is the namelist dictionary with the three files loaded (the
  constructor loads each of them before any method below runs); \<open>disk_nml\<close> is what the
  namelist files hold on disk; \<open>proc_config\<close> and \<open>controller\<close> are the texts of these two
  files. The attributes \<^verbatim>\<open>_start_date\<close>, \<^verbatim>\<open>_end_date\<close>, \<^verbatim>\<open>_run_start_date\<close>,
  \<^verbatim>\<open>_run_end_date\<close>, \<^verbatim>\<open>_runtime\<close> and \<^verbatim>\<open>_n_nodes\<close> lose their underscore.
\<close>

record cc2case =
  name :: string
  run_length :: "string option"
  COSMO_exe :: string
  CESM_exe :: string
  dummy_day :: bool
  nml :: nmldict
  start_date :: datetime
  end_date :: "datetime option"
  run_start_date :: datetime
  run_end_date :: datetime
  runtime :: timedelta
  n_nodes :: int
  disk_nml :: nmldict
  proc_config :: string
  controller :: string

text \<open>A method returns its value or the exception it raises, and the object as it has
  become: what was assigned before a \<^verbatim>\<open>raise\<close> stays assigned.\<close>

type_synonym 'a result = "(error + 'a) \<times> cc2case"

definition n_tasks_per_node :: int where
  "n_tasks_per_node = 12"

text \<open>Assignments through \<^verbatim>\<open>self.nml[file][group]\<close>.\<close>

definition upd_runctl :: "(runctl_group \<Rightarrow> runctl_group) \<Rightarrow> cc2case \<Rightarrow> cc2case" where
  "upd_runctl f self =
     self\<lparr>nml := (nml self)\<lparr>INPUT_ORG :=
       (INPUT_ORG (nml self))\<lparr>runctl := f (runctl (INPUT_ORG (nml self)))\<rparr>\<rparr>\<rparr>"

definition upd_INPUT_IO :: "(INPUT_IO_file \<Rightarrow> INPUT_IO_file) \<Rightarrow> cc2case \<Rightarrow> cc2case" where
  "upd_INPUT_IO f self = self\<lparr>nml := (nml self)\<lparr>INPUT_IO := f (INPUT_IO (nml self))\<rparr>\<rparr>"

definition upd_drv_in :: "(drv_in_file \<Rightarrow> drv_in_file) \<Rightarrow> cc2case \<Rightarrow> cc2case" where
  "upd_drv_in f self = self\<lparr>nml := (nml self)\<lparr>drv_in := f (drv_in (nml self))\<rparr>\<rparr>"

subsection \<open>The properties \<^verbatim>\<open>start_date\<close> and \<^verbatim>\<open>end_date\<close>\<close>

definition set_start_date :: "string option \<Rightarrow> cc2case \<Rightarrow> unit result" where
  "set_start_date sd self =
     (case sd of
        Some s \<Rightarrow>
          (case strptime s date_fmt_in of
             Inl e \<Rightarrow> (Inl e, self)
           | Inr d \<Rightarrow>
               (Inr (), upd_runctl (\<lambda>g. g\<lparr>ydate_ini := Some (strftime d date_fmt_cosmo)\<rparr>)
                          (self\<lparr>start_date := d\<rparr>)))
      | None \<Rightarrow>
          (case ydate_ini (runctl (INPUT_ORG (nml self))) of
             Some ini \<Rightarrow>
               (case strptime ini date_fmt_cosmo of
                  Inl e \<Rightarrow> (Inl e, self)
                | Inr d \<Rightarrow> (Inr (), self\<lparr>start_date := d\<rparr>))
           | None \<Rightarrow>
               (Inl (ValueError
                  ''ydate_ini has to be given in INPUT_ORG/runctl if no start_date is provided''),
                self)))"

definition set_end_date :: "string option \<Rightarrow> cc2case \<Rightarrow> unit result" where
  "set_end_date ed self =
     (case ed of
        Some s \<Rightarrow>
          (case strptime s date_fmt_in of
             Inl e \<Rightarrow> (Inl e, self)
           | Inr d \<Rightarrow>
               (Inr (), upd_runctl (\<lambda>g. g\<lparr>ydate_end := Some (strftime d date_fmt_cosmo)\<rparr>)
                          (self\<lparr>end_date := Some d\<rparr>)))
      | None \<Rightarrow>
          (case ydate_end (runctl (INPUT_ORG (nml self))) of
             Some fin \<Rightarrow>
               (case strptime fin date_fmt_cosmo of
                  Inl e \<Rightarrow> (Inl e, self)
                | Inr d \<Rightarrow> (Inr (), self\<lparr>end_date := Some d\<rparr>))
           | None \<Rightarrow> (Inr (), self\<lparr>end_date := None\<rparr>)))"

subsection \<open>\<^verbatim>\<open>_compute_run_dates\<close>\<close>

text \<open>
  The second half of the method (``Compute \_runtime and \_run\_end\_date''), entered with
  \<^verbatim>\<open>_run_start_date\<close> set. With no end date and a run length the source assigns
  \<^verbatim>\<open>_run_end_date\<close> and \<^verbatim>\<open>_end_date\<close> only, so \<open>runtime\<close> keeps its value there
  (on a fresh object the attribute does not exist yet). With neither, the two run lengths
  are computed and compared as exact rationals, where the code uses floating point numbers.
\<close>

definition compute_run_end :: "cc2case \<Rightarrow> unit result" where
  "compute_run_end self =
     (case end_date self of
        Some e \<Rightarrow>
          if dt_less e (run_start_date self)
          then (Inl (ValueError ''run sart date is larger than case end date''), self)
          else if run_start_date self = e then
            (case timedelta_days 1 of
               Inl er \<Rightarrow> (Inl er, self)
             | Inr td \<Rightarrow>
                 (case dt_add e td of
                    Inl er \<Rightarrow> (Inl er, self\<lparr>runtime := td\<rparr>)
                  | Inr d \<Rightarrow> (Inr (), self\<lparr>runtime := td, run_end_date := d\<rparr>)))
          else
            (case run_length self of
               None \<Rightarrow>
                 (Inr (), self\<lparr>run_end_date := e, runtime := dt_sub e (run_start_date self)\<rparr>)
             | Some rl \<Rightarrow>
                 (case add_time_from_str (run_start_date self) rl of
                    Inl er \<Rightarrow> (Inl er, self)
                  | Inr d \<Rightarrow>
                      (Inr (), self\<lparr>run_end_date := dt_min d e,
                                    runtime := dt_sub (dt_min d e) (run_start_date self)\<rparr>)))
      | None \<Rightarrow>
          (case run_length self of
             None \<Rightarrow>
               (case nstop (runctl (INPUT_ORG (nml self))) of
                  None \<Rightarrow> (Inl (KeyError ''nstop''), self)
                | Some ns \<Rightarrow>
               (case dt (runctl (INPUT_ORG (nml self))) of
                  None \<Rightarrow> (Inl (KeyError ''dt''), self)
                | Some step \<Rightarrow>
               (case hstart (runctl (INPUT_ORG (nml self))) of
                  None \<Rightarrow> (Inl (KeyError ''hstart''), self)
                | Some h \<Rightarrow>
               (case stop_n (seq_timemgr_inparm (drv_in (nml self))) of
                  None \<Rightarrow> (Inl (KeyError ''stop_n''), self)
                | Some runtime_cesm \<Rightarrow>
                    let runtime_cosmo = (of_int ns + 1) * step - of_int h * 3600
                    in if runtime_cosmo \<noteq> runtime_cesm
                       then (Inl (ValueError
                               ''run lengths are not identical in COSMO and CESM namelists''),
                             self)
                       else
                         (case timedelta_seconds runtime_cosmo of
                            Inl er \<Rightarrow> (Inl er, self)
                          | Inr td \<Rightarrow>
                              (case dt_add (run_start_date self) td of
                                 Inl er \<Rightarrow> (Inl er, self\<lparr>runtime := td\<rparr>)
                               | Inr d \<Rightarrow>
                                   (Inr (), self\<lparr>runtime := td, run_end_date := d,
                                                 end_date := Some d\<rparr>)))))))
           | Some rl \<Rightarrow>
               (case add_time_from_str (run_start_date self) rl of
                  Inl er \<Rightarrow> (Inl er, self)
                | Inr d \<Rightarrow> (Inr (), self\<lparr>run_end_date := d, end_date := Some d\<rparr>))))"

text \<open>
  The whole method: the start date of the atmosphere model (\<^verbatim>\<open>ydate_ini\<close> plus
  \<^verbatim>\<open>hstart\<close> hours) and that of the coupler (\<^verbatim>\<open>start_ymd\<close>) are read and compared, then
  the end of the chunk is computed.
\<close>

definition compute_run_dates :: "cc2case \<Rightarrow> unit result" where
  "compute_run_dates self =
     (case ydate_ini (runctl (INPUT_ORG (nml self))) of
        None \<Rightarrow> (Inl (KeyError ''ydate_ini''), self)
      | Some ini \<Rightarrow>
     (case strptime ini date_fmt_cosmo of
        Inl e \<Rightarrow> (Inl e, self)
      | Inr d0 \<Rightarrow>
     (case hstart (runctl (INPUT_ORG (nml self))) of
        None \<Rightarrow> (Inl (KeyError ''hstart''), self)
      | Some h \<Rightarrow>
     (case timedelta_hours h of
        Inl e \<Rightarrow> (Inl e, self)
      | Inr td \<Rightarrow>
     (case dt_add d0 td of
        Inl e \<Rightarrow> (Inl e, self)
      | Inr date_cosmo \<Rightarrow>
     (case start_ymd (seq_timemgr_inparm (drv_in (nml self))) of
        None \<Rightarrow> (Inl (KeyError ''start_ymd''), self)
      | Some ymd \<Rightarrow>
     (case strptime (str_int ymd) date_fmt_cesm of
        Inl e \<Rightarrow> (Inl e, self)
      | Inr date_cesm \<Rightarrow>
          if date_cosmo \<noteq> date_cesm
          then (Inl (ValueError ''start dates are not identical in COSMO and CESM namelists''),
                self)
          else compute_run_end (self\<lparr>run_start_date := date_cosmo\<rparr>))))))))"

text \<open>The date part of the constructor: the two property setters, then
  \<^verbatim>\<open>_compute_run_dates\<close>.\<close>

definition init_dates :: "string option \<Rightarrow> string option \<Rightarrow> cc2case \<Rightarrow> unit result" where
  "init_dates sd ed self =
     (case set_start_date sd self of
        (Inl e, self1) \<Rightarrow> (Inl e, self1)
      | (Inr _, self1) \<Rightarrow>
          (case set_end_date ed self1 of
             (Inl e, self2) \<Rightarrow> (Inl e, self2)
           | (Inr _, self2) \<Rightarrow> compute_run_dates self2))"

subsection \<open>\<^verbatim>\<open>_get_gribouts\<close> and \<^verbatim>\<open>_check_gribout\<close>\<close>

definition get_gribouts :: "cc2case \<Rightarrow> gribout_block list" where
  "get_gribouts self =
     (case gribout (INPUT_IO (nml self)) of
        None \<Rightarrow> []
      | Some (Block g) \<Rightarrow> [g]
      | Some (Blocks gs) \<Rightarrow> gs)"

text \<open>The loop of \<^verbatim>\<open>_check_gribout\<close>: \<^verbatim>\<open>gribout['hcomb'][2]\<close> is a \<open>KeyError\<close> without
  \<^verbatim>\<open>hcomb\<close> and an \<open>IndexError\<close> when it has fewer than three entries.\<close>

fun keep_loop :: "int \<Rightarrow> gribout_block list \<Rightarrow> gribout_block list
    \<Rightarrow> error + gribout_block list" where
  "keep_loop runtime_hours [] gribouts_out = Inr gribouts_out"
| "keep_loop runtime_hours (g # gs) gribouts_out =
     (case hcomb g of
        None \<Rightarrow> Inl (KeyError ''hcomb'')
      | Some hc \<Rightarrow>
          if length hc < 3 then Inl IndexError
          else if hc ! 2 \<le> of_int runtime_hours
               then keep_loop runtime_hours gs (gribouts_out @ [g])
               else keep_loop runtime_hours gs gribouts_out)"

definition check_gribout :: "cc2case \<Rightarrow> unit result" where
  "check_gribout self =
     (let runtime_hours = total_hours (runtime self);
          gribouts_in = get_gribouts self
      in case keep_loop runtime_hours gribouts_in [] of
           Inl e \<Rightarrow> (Inl e, self)
         | Inr gribouts_out \<Rightarrow>
             if gribouts_out \<noteq> [] then
               (Inr (),
                upd_INPUT_IO (\<lambda>f. f\<lparr>ioctl := (ioctl f)\<lparr>ngribout := Some (int (length gribouts_out))\<rparr>\<rparr>)
                  (upd_INPUT_IO (\<lambda>f. f\<lparr>gribout := Some (Blocks gribouts_out)\<rparr>) self))
             else if gribouts_in \<noteq> [] then
               (Inr (), upd_INPUT_IO (\<lambda>f. f\<lparr>gribout := None\<rparr>) self)
             else (Inr (), self))"

subsection \<open>\<^verbatim>\<open>write_open_nml\<close> and \<^verbatim>\<open>_build_proc_config\<close>\<close>

definition write_open_nml :: "cc2case \<Rightarrow> cc2case" where
  "write_open_nml self = self\<lparr>disk_nml := nml self\<rparr>"

text \<open>One line of \<^verbatim>\<open>proc_config\<close>: \<^verbatim>\<open>'{:d}-{:d} ./{:s}\n'.format(a, b, exe)\<close>.\<close>

definition rank_line :: "int \<Rightarrow> int \<Rightarrow> string \<Rightarrow> string" where
  "rank_line a b exe = str_int a @ ''-'' @ str_int b @ '' ./'' @ exe @ [CHR 0x0A]"

definition build_proc_config :: "cc2case \<Rightarrow> unit result" where
  "build_proc_config self =
     (case nprocx (runctl (INPUT_ORG (nml self))) of
        None \<Rightarrow> (Inl (KeyError ''nprocx''), self)
      | Some px \<Rightarrow>
     (case nprocy (runctl (INPUT_ORG (nml self))) of
        None \<Rightarrow> (Inl (KeyError ''nprocy''), self)
      | Some py \<Rightarrow>
     (case lnd_ntasks (ccsm_pes (drv_in (nml self))) of
        None \<Rightarrow> (Inl (KeyError ''lnd_ntasks''), self)
      | Some n_cesm \<Rightarrow>
          let n_cos = px * py;
              n_tot = n_cos + n_cesm
          in (Inr (),
              self\<lparr>n_nodes := n_tot div n_tasks_per_node,
                   proc_config := rank_line 0 (n_cos - 1) (COSMO_exe self)
                                  @ rank_line n_cos (n_tot - 1) (CESM_exe self)\<rparr>))))"

subsection \<open>\<^verbatim>\<open>_update_controller\<close>\<close>

text \<open>
  \<^verbatim>\<open>re.sub('#SBATCH +--KEY=.*$', repl, content, flags=re.MULTILINE)\<close> works line by
  line: in each line, the leftmost place where \<^verbatim>\<open>#SBATCH\<close>, one or more blanks and
  \<^verbatim>\<open>--KEY=\<close> follow each other is replaced, up to the end of the line, by \<open>repl\<close>
  (taken as it is: the log file name is assumed free of backslashes).
\<close>

fun split_lines :: "string \<Rightarrow> string list" where
  "split_lines [] = [[]]"
| "split_lines (c # cs) =
     (if c = CHR 0x0A then [] # split_lines cs
      else (case split_lines cs of [] \<Rightarrow> [[c]] | l # ls \<Rightarrow> (c # l) # ls))"

fun join_lines :: "string list \<Rightarrow> string" where
  "join_lines [] = []"
| "join_lines [l] = l"
| "join_lines (l # ls) = l @ CHR 0x0A # join_lines ls"

fun starts_with :: "string \<Rightarrow> string \<Rightarrow> bool" where
  "starts_with [] s = True"
| "starts_with (p # ps) [] = False"
| "starts_with (p # ps) (c # cs) = (p = c \<and> starts_with ps cs)"

definition sbatch_here :: "string \<Rightarrow> string \<Rightarrow> bool" where
  "sbatch_here key s \<longleftrightarrow>
     starts_with ''#SBATCH '' s
     \<and> starts_with (''--'' @ key @ ''='') (dropWhile (\<lambda>c. c = CHR '' '') (drop 7 s))"

fun sub_line :: "string \<Rightarrow> string \<Rightarrow> string \<Rightarrow> string" where
  "sub_line key repl [] = []"
| "sub_line key repl (c # cs) =
     (if sbatch_here key (c # cs) then repl else c # sub_line key repl cs)"

definition re_sub_sbatch :: "string \<Rightarrow> string \<Rightarrow> string \<Rightarrow> string" where
  "re_sub_sbatch key repl content = join_lines (map (sub_line key repl) (split_lines content))"

definition logfile :: "cc2case \<Rightarrow> string" where
  "logfile self =
     name self @ ''_'' @ strftime (run_start_date self) date_fmt_cesm @ ''-''
     @ strftime (run_end_date self) date_fmt_cesm @ ''.out''"

definition update_controller :: "cc2case \<Rightarrow> cc2case" where
  "update_controller self =
     self\<lparr>controller :=
       re_sub_sbatch ''error'' (''#SBATCH --error='' @ logfile self)
         (re_sub_sbatch ''output'' (''#SBATCH --output='' @ logfile self) (controller self))\<rparr>"

subsection \<open>\<^verbatim>\<open>set_next_run\<close>\<close>

text \<open>The loop \<^verbatim>\<open>for gribout in self._get_gribouts(): gribout['lwrite_const'] = False\<close>
  changes the blocks of the namelist in place, whether \<^verbatim>\<open>gribout\<close> holds one block or a
  list.\<close>

definition clear_lwrite_const :: "gribout_val option \<Rightarrow> gribout_val option" where
  "clear_lwrite_const v =
     (case v of
        None \<Rightarrow> None
      | Some (Block g) \<Rightarrow> Some (Block (g\<lparr>lwrite_const := Some False\<rparr>))
      | Some (Blocks gs) \<Rightarrow> Some (Blocks (map (\<lambda>g. g\<lparr>lwrite_const := Some False\<rparr>) gs)))"

text \<open>The assignments of the \<^verbatim>\<open>else\<close> branch, from \<^verbatim>\<open>hstart\<close> to \<^verbatim>\<open>start_type\<close>,
  in the order of the source.\<close>

definition set_restart_fields :: "cc2case \<Rightarrow> unit result" where
  "set_restart_fields self =
     (let h = total_hours (dt_sub (run_end_date self) (start_date self));
          self1 = upd_runctl (\<lambda>g. g\<lparr>hstart := Some h\<rparr>) self
      in case py_int (strftime (run_end_date self) date_fmt_cesm) of
           Inl e \<Rightarrow> (Inl e, self1)
         | Inr ymd \<Rightarrow>
             let self2 = upd_drv_in (\<lambda>f. f\<lparr>seq_timemgr_inparm :=
                           (seq_timemgr_inparm f)\<lparr>start_ymd := Some ymd\<rparr>\<rparr>) self1
             in case ydir_restart_out (ioctl (INPUT_IO (nml self2))) of
                  None \<Rightarrow> (Inl (KeyError ''ydir_restart_out''), self2)
                | Some dir \<Rightarrow>
                    let self3 = upd_INPUT_IO (\<lambda>f. f\<lparr>gribin := (gribin f)\<lparr>ydirini := Some dir\<rparr>\<rparr>)
                                  self2;
                        self4 = upd_INPUT_IO (\<lambda>f. f\<lparr>gribout := clear_lwrite_const (gribout f)\<rparr>)
                                  self3;
                        self5 = upd_drv_in (\<lambda>f. f\<lparr>seq_infodata_inparm :=
                                  (seq_infodata_inparm f)\<lparr>start_type := Some ''continue''\<rparr>\<rparr>)
                                  self4
                    in (Inr (), self5))"

text \<open>
  The method. Comparing \<^verbatim>\<open>_run_start_date\<close> with an \<^verbatim>\<open>_end_date\<close> that is \<^verbatim>\<open>None\<close> is a
  \<open>TypeError\<close>; \<^verbatim>\<open>a >= b\<close> on dates is \<open>\<not> a < b\<close>.
\<close>

definition set_next_run :: "cc2case \<Rightarrow> bool result" where
  "set_next_run self =
     (case end_date self of
        None \<Rightarrow> (Inl TypeError, self)
      | Some e \<Rightarrow>
          if \<not> dt_less (run_start_date self) e then (Inr False, self)
          else
            (case set_restart_fields self of
               (Inl er, self1) \<Rightarrow> (Inl er, self1)
             | (Inr _, self1) \<Rightarrow>
                 (case compute_run_dates (write_open_nml self1) of
                    (Inl er, self2) \<Rightarrow> (Inl er, self2)
                  | (Inr _, self2) \<Rightarrow>
                      let self3 = update_controller self2
                      in if Some (run_start_date self3) = end_date self3 \<and> \<not> dummy_day self3
                         then (Inr False, self3)
                         else (Inr True, self3))))"

subsection \<open>Predicates used in the statements\<close>

text \<open>A record of seven integers is a date of the library when the constructor accepts its
  fields.\<close>

definition is_datetime :: "datetime \<Rightarrow> bool" where
  "is_datetime t \<longleftrightarrow>
     mk_datetime (year t) (month t) (day t) (hour t) (minute t) (second t) (microsecond t) = Inr t"

text \<open>An output block has a threshold when \<^verbatim>\<open>hcomb\<close> is present with at least three
  entries; the threshold is the third.\<close>

definition has_threshold :: "gribout_block \<Rightarrow> bool" where
  "has_threshold g \<longleftrightarrow> (case hcomb g of None \<Rightarrow> False | Some hc \<Rightarrow> 3 \<le> length hc)"

definition threshold :: "gribout_block \<Rightarrow> rat" where
  "threshold g = (case hcomb g of None \<Rightarrow> 0 | Some hc \<Rightarrow> hc ! 2)"

subsection \<open>A case from 2020-01-01-00 to 2020-01-03-00 in chunks of one day\<close>

definition at_hour :: "int \<Rightarrow> int \<Rightarrow> int \<Rightarrow> int \<Rightarrow> datetime" where
  "at_hour y m d h =
     \<lparr>year = y, month = m, day = d, hour = h, minute = 0, second = 0, microsecond = 0\<rparr>"

text \<open>The namelists as the case directory holds them before the case is built: a cold
  start on 2020-01-01, a 4 by 3 atmosphere decomposition, 12 land tasks and one output
  block with a threshold of 48 hours.\<close>

definition example_nml :: nmldict where
  "example_nml =
     \<lparr>INPUT_ORG = \<lparr>runctl = \<lparr>ydate_ini = None, ydate_end = None, hstart = Some 0,
                               nstop = None, dt = None, nprocx = Some 4, nprocy = Some 3\<rparr>\<rparr>,
      INPUT_IO = \<lparr>gribin = \<lparr>ydirini = Some ''COSMO_input''\<rparr>,
                   ioctl = \<lparr>ydir_restart_out = Some ''COSMO_output/restart'', ngribout = Some 1\<rparr>,
                   gribout = Some (Block \<lparr>hcomb = Some [0, 24, 48], lwrite_const = Some True,
                                           ydir = Some ''COSMO_output''\<rparr>)\<rparr>,
      drv_in = \<lparr>seq_timemgr_inparm = \<lparr>start_ymd = Some 20200101, stop_n = None\<rparr>,
                 seq_infodata_inparm = \<lparr>start_type = Some ''startup''\<rparr>,
                 ccsm_pes = \<lparr>lnd_ntasks = Some 12\<rparr>\<rparr>\<rparr>"

text \<open>The object before its dates are set, with \<^verbatim>\<open>run_length = '1d'\<close> and the given
  \<^verbatim>\<open>dummy_day\<close>.\<close>

definition example_case :: "bool \<Rightarrow> cc2case" where
  "example_case dd =
     \<lparr>name = ''COSMO_CLM2'', run_length = Some ''1d'', COSMO_exe = ''cosmo'',
      CESM_exe = ''cesm.exe'', dummy_day = dd, nml = example_nml,
      start_date = at_hour 1 1 1 0, end_date = None,
      run_start_date = at_hour 1 1 1 0, run_end_date = at_hour 1 1 1 0,
      runtime = 0, n_nodes = 0, disk_nml = example_nml, proc_config = [],
      controller = ''#!/bin/bash -l'' @ [CHR 0x0A] @ ''#SBATCH --output=log.out'' @ [CHR 0x0A]
                   @ ''#SBATCH --error=log.out'' @ [CHR 0x0A]
                   @ ''cc2_control_case ./config.xml'' @ [CHR 0x0A]\<rparr>"

text \<open>The case once the constructor has set its dates.\<close>

definition example_init :: "bool \<Rightarrow> cc2case" where
  "example_init dd =
     snd (init_dates (Some ''2020-01-01-00'') (Some ''2020-01-03-00'') (example_case dd))"

text \<open>The same case with the namelists of the last restart: 48 hours after the start, the
  coupler starting on 2020-01-03.\<close>

definition example_last :: cc2case where
  "example_last =
     upd_drv_in (\<lambda>f. f\<lparr>seq_timemgr_inparm := (seq_timemgr_inparm f)\<lparr>start_ymd := Some 20200103\<rparr>\<rparr>)
       (upd_runctl (\<lambda>g. g\<lparr>hstart := Some 48\<rparr>) (example_init True))"

subsection \<open>An open-ended case whose chunk lasts half an hour\<close>

text \<open>No end date and no run length are given: the chunk is the one the namelists
  describe, 90 steps of 20 seconds from 2020-01-01-00, which the coupler counts as 1800
  seconds. The one output block has a threshold of half an hour.\<close>

definition half_hour_nml :: nmldict where
  "half_hour_nml =
     \<lparr>INPUT_ORG = \<lparr>runctl = \<lparr>ydate_ini = Some ''2020010100'', ydate_end = None,
                               hstart = Some 0, nstop = Some 89, dt = Some 20,
                               nprocx = Some 4, nprocy = Some 3\<rparr>\<rparr>,
      INPUT_IO = \<lparr>gribin = \<lparr>ydirini = Some ''COSMO_input''\<rparr>,
                   ioctl = \<lparr>ydir_restart_out = Some ''COSMO_output/restart'', ngribout = Some 1\<rparr>,
                   gribout = Some (Block \<lparr>hcomb = Some [0, 1, 1 / 2], lwrite_const = Some True,
                                           ydir = Some ''COSMO_output''\<rparr>)\<rparr>,
      drv_in = \<lparr>seq_timemgr_inparm = \<lparr>start_ymd = Some 20200101, stop_n = Some 1800\<rparr>,
                 seq_infodata_inparm = \<lparr>start_type = Some ''startup''\<rparr>,
                 ccsm_pes = \<lparr>lnd_ntasks = Some 12\<rparr>\<rparr>\<rparr>"

definition half_hour_case :: cc2case where
  "half_hour_case =
     (example_case True)\<lparr>run_length := None, nml := half_hour_nml, disk_nml := half_hour_nml\<rparr>"

text \<open>The case once the constructor has set its dates.\<close>

definition half_hour_init :: cc2case where
  "half_hour_init = snd (init_dates None None half_hour_case)"

text \<open>The chunk an object holds: its run start and run end dates.\<close>

definition chunk :: "cc2case \<Rightarrow> datetime \<times> datetime" where
  "chunk self = (run_start_date self, run_end_date self)"

section \<open>Properties\<close>

subsection \<open>Dates and decimal text\<close>

lemma lex_less_irrefl: "\<not> lex_less xs xs"
  by (induction xs) auto

lemma dt_less_irrefl: "\<not> dt_less a a"
  by (simp add: dt_less_def lex_less_irrefl)

lemma not_less_dt_min: "\<not> dt_less e (dt_min d e)"
  by (simp add: dt_min_def dt_less_irrefl)

lemma mk_datetime_Inr:
  "mk_datetime y m d h mi s us = Inr t \<Longrightarrow>
   t = \<lparr>year = y, month = m, day = d, hour = h, minute = mi, second = s, microsecond = us\<rparr>"
  by (simp add: mk_datetime_def split: if_splits)

lemma mk_datetime_bad_day:
  "1 \<le> y \<Longrightarrow> y \<le> 9999 \<Longrightarrow> 1 \<le> m \<Longrightarrow> m \<le> 12 \<Longrightarrow> days_in_month y m < d \<Longrightarrow>
   mk_datetime y m d h mi s us = Inl (ValueError ''day is out of range for month'')"
  by (simp add: mk_datetime_def)

text \<open>A date of the library, written with \<^verbatim>\<open>%Y%m%d\<close> and read back with \<^verbatim>\<open>int\<close>, is
  the number \<open>year * 10000 + month * 100 + day\<close>.\<close>

lemma digit_range:
  "(0::int) \<le> d \<Longrightarrow> d < 10 \<Longrightarrow>
   d = 0 \<or> d = 1 \<or> d = 2 \<or> d = 3 \<or> d = 4 \<or> d = 5 \<or> d = 6 \<or> d = 7 \<or> d = 8 \<or> d = 9"
  by arith

lemma digit_val_digit_char:
  assumes "0 \<le> d" and "d < 10"
  shows "digit_val (digit_char d) = Some d"
  using digit_range[OF assms] by (elim disjE) (simp_all add: digit_val_def digit_char_def)

lemma digit_val_digit_char_mod: "digit_val (digit_char (k mod 10)) = Some (k mod 10)"
  by (rule digit_val_digit_char) simp_all

lemma digit_char_not_space: "\<not> is_space (digit_char d)"
  by (simp add: digit_char_def is_space_def)

lemma digit_char_not_sign: "digit_char d \<noteq> CHR ''-''" "digit_char d \<noteq> CHR ''+''"
  by (simp_all add: digit_char_def)

lemma str_nonneg_1: "n < 10 \<Longrightarrow> str_nonneg n = [digit_char (n mod 10)]"
  by (subst str_nonneg.simps) simp

lemma div_div_10:
  "(n::int) div 10 div 10 = n div 100" "(n::int) div 100 div 10 = n div 1000"
  by (simp_all add: zdiv_zmult2_eq[symmetric])

lemma str_nonneg_2:
  assumes "10 \<le> n" and "n < 100"
  shows "str_nonneg n = [digit_char (n div 10 mod 10), digit_char (n mod 10)]"
proof -
  have "n div 10 < 10" using assms by simp
  then have "str_nonneg (n div 10) = [digit_char (n div 10 mod 10)]" by (rule str_nonneg_1)
  then show ?thesis using assms by (subst str_nonneg.simps) simp
qed

lemma str_nonneg_3:
  assumes "100 \<le> n" and "n < 1000"
  shows "str_nonneg n = [digit_char (n div 100 mod 10), digit_char (n div 10 mod 10),
                         digit_char (n mod 10)]"
proof -
  have "10 \<le> n div 10" "n div 10 < 100" using assms by simp_all
  then have "str_nonneg (n div 10) =
      [digit_char (n div 10 div 10 mod 10), digit_char (n div 10 mod 10)]"
    by (rule str_nonneg_2)
  then show ?thesis using assms unfolding div_div_10 by (subst str_nonneg.simps) simp
qed

lemma str_nonneg_4:
  assumes "1000 \<le> n" and "n < 10000"
  shows "str_nonneg n = [digit_char (n div 1000 mod 10), digit_char (n div 100 mod 10),
                         digit_char (n div 10 mod 10), digit_char (n mod 10)]"
proof -
  have "100 \<le> n div 10" "n div 10 < 1000" using assms by simp_all
  then have "str_nonneg (n div 10) =
      [digit_char (n div 10 div 100 mod 10), digit_char (n div 10 div 10 mod 10),
       digit_char (n div 10 mod 10)]"
    by (rule str_nonneg_3)
  moreover have "n div 10 div 100 = n div 1000"
    by (simp add: zdiv_zmult2_eq[symmetric])
  ultimately show ?thesis using assms unfolding div_div_10 by (subst str_nonneg.simps) simp
qed

lemma pad_lengths:
  "replicate (2 - length [a]) z = [z]"
  "replicate (2 - length [a, b]) z = []"
  "replicate (4 - length [a]) z = [z, z, z]"
  "replicate (4 - length [a, b]) z = [z, z]"
  "replicate (4 - length [a, b, c]) z = [z]"
  "replicate (4 - length [a, b, c, d]) z = []"
  by (simp_all add: eval_nat_numeral)

lemma digit_char_0: "digit_char 0 = CHR ''0''"
  by (simp add: digit_char_def)

lemma zero_pad_2:
  assumes "0 \<le> i" and "i < 100"
  shows "zero_pad 2 i = [digit_char (i div 10 mod 10), digit_char (i mod 10)]"
proof -
  have si: "str_int i = str_nonneg i"
    using assms by (simp add: str_int_def)
  show ?thesis
  proof (cases "i < 10")
    case True
    have s: "str_nonneg i = [digit_char (i mod 10)]" using True by (rule str_nonneg_1)
    have z: "i div 10 mod 10 = 0" using True assms by simp
    show ?thesis unfolding zero_pad_def Let_def si s pad_lengths z digit_char_0 by simp
  next
    case False
    have s: "str_nonneg i = [digit_char (i div 10 mod 10), digit_char (i mod 10)]"
      using False assms by (simp add: str_nonneg_2)
    show ?thesis unfolding zero_pad_def Let_def si s pad_lengths by simp
  qed
qed

lemma zero_pad_4:
  assumes "0 \<le> i" and "i < 10000"
  shows "zero_pad 4 i = [digit_char (i div 1000 mod 10), digit_char (i div 100 mod 10),
                         digit_char (i div 10 mod 10), digit_char (i mod 10)]"
proof -
  have si: "str_int i = str_nonneg i"
    using assms by (simp add: str_int_def)
  show ?thesis
  proof (cases "i < 10")
    case True
    have s: "str_nonneg i = [digit_char (i mod 10)]" using True by (rule str_nonneg_1)
    have z: "i div 1000 mod 10 = 0" "i div 100 mod 10 = 0" "i div 10 mod 10 = 0"
      using True assms by simp_all
    show ?thesis unfolding zero_pad_def Let_def si s pad_lengths z digit_char_0 by simp
  next
    case ge10: False
    show ?thesis
    proof (cases "i < 100")
      case True
      have s: "str_nonneg i = [digit_char (i div 10 mod 10), digit_char (i mod 10)]"
        using ge10 True by (simp add: str_nonneg_2)
      have z: "i div 1000 mod 10 = 0" "i div 100 mod 10 = 0" using True assms by simp_all
      show ?thesis unfolding zero_pad_def Let_def si s pad_lengths z digit_char_0 by simp
    next
      case ge100: False
      show ?thesis
      proof (cases "i < 1000")
        case True
        have s: "str_nonneg i = [digit_char (i div 100 mod 10), digit_char (i div 10 mod 10),
                   digit_char (i mod 10)]"
          using ge100 True by (simp add: str_nonneg_3)
        have z: "i div 1000 mod 10 = 0" using True assms by simp
        show ?thesis unfolding zero_pad_def Let_def si s pad_lengths z digit_char_0 by simp
      next
        case False
        have s: "str_nonneg i = [digit_char (i div 1000 mod 10), digit_char (i div 100 mod 10),
                   digit_char (i div 10 mod 10), digit_char (i mod 10)]"
          using False assms by (simp add: str_nonneg_4)
        show ?thesis unfolding zero_pad_def Let_def si s pad_lengths by simp
      qed
    qed
  qed
qed

lemma digits2:
  assumes "0 \<le> n" and "(n::int) < 100"
  shows "n div 10 mod 10 * 10 + n mod 10 = n"
proof -
  have "0 \<le> n div 10" "n div 10 < 10" using assms by simp_all
  then have "n div 10 mod 10 = n div 10" by simp
  then show ?thesis by simp
qed

lemma digits4:
  assumes "0 \<le> n" and "(n::int) < 10000"
  shows "((n div 1000 mod 10 * 10 + n div 100 mod 10) * 10 + n div 10 mod 10) * 10 + n mod 10 = n"
proof -
  have "0 \<le> n div 1000" "n div 1000 < 10" using assms by simp_all
  then have m3: "n div 1000 mod 10 = n div 1000" by simp
  have e0: "n div 10 * 10 + n mod 10 = n" by simp
  have e1: "n div 100 * 10 + n div 10 mod 10 = n div 10"
    using div_mult_mod_eq[of "n div 10" 10] unfolding div_div_10 .
  have e2: "n div 1000 * 10 + n div 100 mod 10 = n div 100"
    using div_mult_mod_eq[of "n div 100" 10] unfolding div_div_10 .
  show ?thesis unfolding m3 e2 e1 e0 ..
qed

lemma py_int_eight_digits:
  "py_int [digit_char (a mod 10), digit_char (b mod 10), digit_char (c mod 10),
           digit_char (d mod 10), digit_char (e mod 10), digit_char (f mod 10),
           digit_char (g mod 10), digit_char (h mod 10)] =
   Inr (((((((a mod 10 * 10 + b mod 10) * 10 + c mod 10) * 10 + d mod 10) * 10
        + e mod 10) * 10 + f mod 10) * 10 + g mod 10) * 10 + h mod 10)"
  by (simp add: py_int_def strip_def digit_char_not_space digit_char_not_sign
      digit_val_digit_char_mod Let_def)

lemma py_int_strftime_cesm:
  assumes "0 \<le> year t" "year t < 10000" "0 \<le> month t" "month t < 100" "0 \<le> day t" "day t < 100"
  shows "py_int (strftime t date_fmt_cesm) = Inr (year t * 10000 + month t * 100 + day t)"
proof -
  have s: "strftime t date_fmt_cesm =
     [digit_char (year t div 1000 mod 10), digit_char (year t div 100 mod 10),
      digit_char (year t div 10 mod 10), digit_char (year t mod 10),
      digit_char (month t div 10 mod 10), digit_char (month t mod 10),
      digit_char (day t div 10 mod 10), digit_char (day t mod 10)]"
    using assms by (simp add: strftime_def date_fmt_cesm_def zero_pad_4 zero_pad_2)
  define y where "y = ((year t div 1000 mod 10 * 10 + year t div 100 mod 10) * 10
            + year t div 10 mod 10) * 10 + year t mod 10"
  define m where "m = month t div 10 mod 10 * 10 + month t mod 10"
  define d where "d = day t div 10 mod 10 * 10 + day t mod 10"
  have y: "y = year t" unfolding y_def using assms by (intro digits4)
  have m: "m = month t" unfolding m_def using assms by (intro digits2)
  have d: "d = day t" unfolding d_def using assms by (intro digits2)
  have "py_int (strftime t date_fmt_cesm) = Inr ((((y * 10 + month t div 10 mod 10) * 10
          + month t mod 10) * 10 + day t div 10 mod 10) * 10 + day t mod 10)"
    unfolding s py_int_eight_digits y_def ..
  also have "(((y * 10 + month t div 10 mod 10) * 10
          + month t mod 10) * 10 + day t div 10 mod 10) * 10 + day t mod 10
          = y * 10000 + m * 100 + d"
    unfolding m_def d_def by (simp add: algebra_simps)
  finally show ?thesis unfolding y m d .
qed

lemma is_datetime_bounds:
  assumes "is_datetime t"
  shows "0 \<le> year t" "year t < 10000" "0 \<le> month t" "month t < 100" "0 \<le> day t" "day t < 100"
proof -
  have *: "1 \<le> year t \<and> year t \<le> 9999 \<and> 1 \<le> month t \<and> month t \<le> 12 \<and> 1 \<le> day t
        \<and> day t \<le> days_in_month (year t) (month t)"
    using assms by (simp add: is_datetime_def mk_datetime_def split: if_splits)
  have "days_in_month (year t) (month t) \<le> 31"
    by (simp add: days_in_month_def days_in_month_common_def)
  with * show "0 \<le> year t" "year t < 10000" "0 \<le> month t" "month t < 100" "0 \<le> day t" "day t < 100"
    by simp_all
qed

subsection \<open>The run-period reconciler\<close>

lemma compute_run_end_bound:
  assumes "compute_run_end self = (Inr (), self')" and "end_date self = Some e"
  shows "end_date self' = Some e \<and> run_start_date self' = run_start_date self
    \<and> (run_start_date self \<noteq> e \<longrightarrow> \<not> dt_less e (run_end_date self'))
    \<and> (run_start_date self = e \<longrightarrow> dt_add e 86400000000 = Inr (run_end_date self'))"
  using assms
  by (auto simp: compute_run_end_def timedelta_days_def mk_timedelta_def us_per_day_def
      not_less_dt_min dt_less_irrefl split: if_splits sum.splits option.splits)

lemma compute_run_dates_start:
  assumes "compute_run_dates self = (Inr (), self')"
  shows "\<exists>d. compute_run_end (self\<lparr>run_start_date := d\<rparr>) = (Inr (), self')"
  using assms
  by (auto simp: compute_run_dates_def split: if_splits sum.splits option.splits)

lemma compute_run_end_nml:
  "nml (snd (compute_run_end c)) = nml c \<and> disk_nml (snd (compute_run_end c)) = disk_nml c
   \<and> controller (snd (compute_run_end c)) = controller c"
  by (simp add: compute_run_end_def Let_def split: option.splits sum.splits)

lemma compute_run_dates_nml:
  "nml (snd (compute_run_dates c)) = nml c \<and> disk_nml (snd (compute_run_dates c)) = disk_nml c
   \<and> controller (snd (compute_run_dates c)) = controller c"
  by (simp add: compute_run_dates_def compute_run_end_nml split: option.splits sum.splits)

text \<open>
  Claim C1. As stated (the chunk end never exceeds a configured case end date, in every
  branch) the claim fails in the branch it singles out: when the chunk starts on the case end
  date the method forces a chunk of one day that ends one day after the case end date. What
  holds: after a successful \<^verbatim>\<open>_compute_run_dates\<close> on a case with an end date, the chunk
  end is not after the case end date whenever the chunk start differs from it, and when the
  chunk starts on the case end date the chunk end is exactly the case end date plus one day.
\<close>

theorem run_end_bound:
  assumes "compute_run_dates self = (Inr (), self')" and "end_date self = Some e"
  shows "(run_start_date self' \<noteq> e \<longrightarrow> \<not> dt_less e (run_end_date self'))
    \<and> (run_start_date self' = e \<longrightarrow> dt_add e 86400000000 = Inr (run_end_date self'))"
proof -
  from assms(1) obtain d where d: "compute_run_end (self\<lparr>run_start_date := d\<rparr>) = (Inr (), self')"
    using compute_run_dates_start by blast
  have "end_date (self\<lparr>run_start_date := d\<rparr>) = Some e" using assms(2) by simp
  from compute_run_end_bound[OF d this] show ?thesis by simp
qed

theorem run_end_bound_witness:
  "compute_run_dates (example_init True) = (Inr (), example_init True)
   \<and> end_date (example_init True) = Some (at_hour 2020 1 3 0)
   \<and> run_start_date (example_init True) \<noteq> at_hour 2020 1 3 0
   \<and> \<not> dt_less (at_hour 2020 1 3 0) (run_end_date (example_init True))"
proof -
  have c: "compute_run_dates (example_init True) = (Inr (), example_init True)"
    by code_simp
  have e: "end_date (example_init True) = Some (at_hour 2020 1 3 0)"
    by code_simp
  have n: "run_start_date (example_init True) \<noteq> at_hour 2020 1 3 0"
    by code_simp
  from run_end_bound[OF c e] n c e show ?thesis by blast
qed

theorem run_end_exceeds_counterexample:
  "fst (compute_run_dates example_last) = Inr ()
   \<and> end_date example_last = Some (at_hour 2020 1 3 0)
   \<and> run_start_date (snd (compute_run_dates example_last)) = at_hour 2020 1 3 0
   \<and> run_end_date (snd (compute_run_dates example_last)) = at_hour 2020 1 4 0
   \<and> dt_less (at_hour 2020 1 3 0) (run_end_date (snd (compute_run_dates example_last)))"
  by (intro conjI; code_simp)

text \<open>
  Claim C4. When both start dates can be read (the atmosphere's \<^verbatim>\<open>ydate_ini\<close> plus
  \<^verbatim>\<open>hstart\<close> hours, the coupler's \<^verbatim>\<open>start_ymd\<close>) and they differ at all,
  \<^verbatim>\<open>_compute_run_dates\<close> raises the start-date mismatch error and assigns nothing: neither
  date becomes the run start date.
\<close>

theorem start_date_mismatch:
  assumes "ydate_ini (runctl (INPUT_ORG (nml self))) = Some ini"
    and "strptime ini date_fmt_cosmo = Inr d0"
    and "hstart (runctl (INPUT_ORG (nml self))) = Some h"
    and "timedelta_hours h = Inr td"
    and "dt_add d0 td = Inr date_cosmo"
    and "start_ymd (seq_timemgr_inparm (drv_in (nml self))) = Some ymd"
    and "strptime (str_int ymd) date_fmt_cesm = Inr date_cesm"
    and "date_cosmo \<noteq> date_cesm"
  shows "compute_run_dates self =
    (Inl (ValueError ''start dates are not identical in COSMO and CESM namelists''), self)"
  using assms by (simp add: compute_run_dates_def)

theorem start_date_mismatch_witness:
  "ydate_ini (runctl (INPUT_ORG (nml (upd_runctl (\<lambda>g. g\<lparr>hstart := Some 1\<rparr>) (example_init True)))))
     = Some ''2020010100''
   \<and> strptime ''2020010100'' date_fmt_cosmo = Inr (at_hour 2020 1 1 0)
   \<and> timedelta_hours 1 = Inr 3600000000
   \<and> dt_add (at_hour 2020 1 1 0) 3600000000 = Inr (at_hour 2020 1 1 1)
   \<and> strptime (str_int 20200101) date_fmt_cesm = Inr (at_hour 2020 1 1 0)
   \<and> at_hour 2020 1 1 1 \<noteq> at_hour 2020 1 1 0
   \<and> compute_run_dates (upd_runctl (\<lambda>g. g\<lparr>hstart := Some 1\<rparr>) (example_init True)) =
       (Inl (ValueError ''start dates are not identical in COSMO and CESM namelists''),
        upd_runctl (\<lambda>g. g\<lparr>hstart := Some 1\<rparr>) (example_init True))"
proof -
  let ?c = "upd_runctl (\<lambda>g. g\<lparr>hstart := Some 1\<rparr>) (example_init True)"
  have h1: "ydate_ini (runctl (INPUT_ORG (nml ?c))) = Some ''2020010100''" by code_simp
  have h2: "strptime ''2020010100'' date_fmt_cosmo = Inr (at_hour 2020 1 1 0)" by code_simp
  have h3: "hstart (runctl (INPUT_ORG (nml ?c))) = Some 1" by code_simp
  have h4: "timedelta_hours 1 = Inr 3600000000" by code_simp
  have h5: "dt_add (at_hour 2020 1 1 0) 3600000000 = Inr (at_hour 2020 1 1 1)" by code_simp
  have h6: "start_ymd (seq_timemgr_inparm (drv_in (nml ?c))) = Some 20200101" by code_simp
  have h7: "strptime (str_int 20200101) date_fmt_cesm = Inr (at_hour 2020 1 1 0)" by code_simp
  have h8: "at_hour 2020 1 1 1 \<noteq> at_hour 2020 1 1 0" by code_simp
  from start_date_mismatch[OF h1 h2 h3 h4 h5 h6 h7 h8] h1 h2 h4 h5 h7 h8
  show ?thesis by blast
qed

subsection \<open>\<^verbatim>\<open>add_time_from_str\<close>\<close>

lemma ym_loop_skip:
  "\<forall>p \<in> set ps. snd p \<noteq> CHR ''y'' \<and> snd p \<noteq> CHR ''m'' \<Longrightarrow>
   ym_loop s (ps @ rest) st = ym_loop s rest st"
proof (induction ps)
  case Nil
  then show ?case by simp
next
  case (Cons p ps)
  obtain k c where p: "p = (k, c)" by (cases p)
  obtain ky ny km nm where st: "st = (ky, ny, km, nm)" by (cases st)
  from Cons show ?case by (simp add: p st)
qed

lemma enumerate_no_char:
  "c \<notin> set xs \<Longrightarrow> \<forall>p \<in> set (enumerate n xs). snd p \<noteq> c"
  by (auto simp: enumerate_eq_zip dest: set_zip_rightD)

lemma py_int_error:
  "py_int s = Inl e \<Longrightarrow> e = ValueError ''invalid literal for int() with base 10''"
  by (auto simp: py_int_def Let_def split: option.splits)

lemma strip_nonspace:
  assumes "\<not> is_space c"
  shows "strip (c # cs) = c # rev (dropWhile is_space (rev cs))"
  using assms by (simp add: strip_def dropWhile_append3)

lemma py_int_y: "py_int (CHR ''y'' # s) = Inl (ValueError ''invalid literal for int() with base 10'')"
proof -
  have ns: "\<not> is_space CHR ''y''" by (simp add: is_space_def)
  show ?thesis
    by (simp add: py_int_def strip_nonspace[OF ns] Let_def digit_val_def)
qed

lemma ym_loop_y:
  "ym_loop s ((k, CHR ''y'') # rest) (ky, ny, km, nm) =
     (case py_int (take k s) of Inl e \<Rightarrow> Inl e | Inr v \<Rightarrow> ym_loop s rest (k, v, km, nm))"
  by (simp split: sum.splits)

lemma ym_loop_m:
  "ym_loop s [(k, CHR ''m'')] (ky, ny, km, nm) =
     (case py_int (drop ky (take k s)) of Inl e \<Rightarrow> Inl e | Inr v \<Rightarrow> Inr (ky, ny, k, v))"
  by (simp split: sum.splits)

text \<open>
  Claim C2. The docstring and the command line help promise the combined form
  \<^verbatim>\<open>N1yN2m\<close>, but the function reads the months with \<^verbatim>\<open>int(dt_str[ky:k])\<close>, a slice
  that begins with the letter \<^verbatim>\<open>y\<close> itself, so \<^verbatim>\<open>int\<close> fails: every expression made
  of a text without \<^verbatim>\<open>y\<close> and \<^verbatim>\<open>m\<close>, a \<^verbatim>\<open>y\<close>, another such text and an \<^verbatim>\<open>m\<close>
  raises \<open>ValueError\<close> on every date, instead of advancing the date.
\<close>

theorem add_time_combined_form_fails:
  assumes "CHR ''y'' \<notin> set n1" and "CHR ''m'' \<notin> set n1"
    and "CHR ''y'' \<notin> set n2" and "CHR ''m'' \<notin> set n2"
  shows "add_time_from_str date1 (n1 @ ''y'' @ n2 @ ''m'') =
    Inl (ValueError ''invalid literal for int() with base 10'')"
proof -
  define s where "s = n1 @ ''y'' @ n2 @ ''m''"
  define k2 where "k2 = length n1 + 1 + length n2"
  define rest2 where "rest2 = enumerate (length n1 + 1) n2 @ [(k2, CHR ''m'')]"
  have en: "enumerate 0 s = enumerate 0 n1 @ ((length n1, CHR ''y'') # rest2)"
    by (simp add: s_def k2_def rest2_def enumerate_append_eq)
  have skip1: "\<forall>p \<in> set (enumerate 0 n1). snd p \<noteq> CHR ''y'' \<and> snd p \<noteq> CHR ''m''"
    using enumerate_no_char[OF assms(1), of 0] enumerate_no_char[OF assms(2), of 0] by simp
  have skip2: "\<forall>p \<in> set (enumerate (length n1 + 1) n2). snd p \<noteq> CHR ''y'' \<and> snd p \<noteq> CHR ''m''"
    using enumerate_no_char[OF assms(3), of "length n1 + 1"]
      enumerate_no_char[OF assms(4), of "length n1 + 1"] by simp
  have t1: "take (length n1) s = n1" by (simp add: s_def)
  have t2: "drop (length n1) (take k2 s) = CHR ''y'' # n2" by (simp add: s_def k2_def)
  have a: "ym_loop s (enumerate 0 s) (0, 0, 0, 0) =
      (case py_int n1 of Inl e \<Rightarrow> Inl e | Inr v \<Rightarrow> ym_loop s rest2 (length n1, v, 0, 0))"
    unfolding en ym_loop_skip[OF skip1] ym_loop_y t1 ..
  have b: "ym_loop s rest2 (length n1, v, 0, 0) =
      Inl (ValueError ''invalid literal for int() with base 10'')" for v
    unfolding rest2_def ym_loop_skip[OF skip2] ym_loop_m t2 py_int_y by simp
  have "ym_loop s (enumerate 0 s) (0, 0, 0, 0) =
      Inl (ValueError ''invalid literal for int() with base 10'')"
  proof (cases "py_int n1")
    case (Inl e)
    with py_int_error[OF Inl] show ?thesis unfolding a by simp
  next
    case (Inr v)
    then show ?thesis unfolding a by (simp add: b)
  qed
  then have "add_time_from_str date1 s = Inl (ValueError ''invalid literal for int() with base 10'')"
    by (simp add: add_time_from_str_def)
  then show ?thesis unfolding s_def .
qed

theorem add_time_combined_form_fails_witness:
  "CHR ''y'' \<notin> set ''1'' \<and> CHR ''m'' \<notin> set ''1'' \<and> CHR ''y'' \<notin> set ''2'' \<and> CHR ''m'' \<notin> set ''2''
   \<and> add_time_from_str (at_hour 2020 6 15 0) ''1y2m'' =
       Inl (ValueError ''invalid literal for int() with base 10'')"
proof -
  have h: "CHR ''y'' \<notin> set ''1''" "CHR ''m'' \<notin> set ''1''" "CHR ''y'' \<notin> set ''2''"
    "CHR ''m'' \<notin> set ''2''"
    by simp_all
  from add_time_combined_form_fails[OF h, of "at_hour 2020 6 15 0"] h
  show ?thesis by simp
qed

text \<open>
  Claim C7. As stated the claim fails twice: the result is built by
  \<^verbatim>\<open>datetime(y2, m2, d2, h2)\<close>, which sets minute, second and microsecond to zero, and
  which raises \<open>ValueError\<close> when the day does not exist in the target month; nothing
  clamps the day. What holds for every expression that takes the year/month branch (the
  first loop ends with \<open>ky \<noteq> 0\<close> or \<open>km \<noteq> 0\<close>): the result is that constructor call; when
  it returns, year and month are the ones of the formula, day and hour are those of the
  source date and the finer fields are zero; and when the year is in range and the source
  day exceeds the length of the target month the call fails.
\<close>

theorem add_time_ym_form:
  assumes "ym_loop dt_str (enumerate 0 dt_str) (0, 0, 0, 0) = Inr (ky, ny, km, nm)"
    and "ky \<noteq> 0 \<or> km \<noteq> 0"
  shows "add_time_from_str date1 dt_str =
      mk_datetime (year date1 + (ny + (nm + month date1 - 1) div 12))
        ((nm + month date1 - 1) mod 12 + 1) (day date1) (hour date1) 0 0 0
    \<and> (\<forall>date2. add_time_from_str date1 dt_str = Inr date2 \<longrightarrow>
          year date2 = year date1 + (ny + (nm + month date1 - 1) div 12)
          \<and> month date2 = (nm + month date1 - 1) mod 12 + 1
          \<and> day date2 = day date1 \<and> hour date2 = hour date1
          \<and> minute date2 = 0 \<and> second date2 = 0 \<and> microsecond date2 = 0)
    \<and> (1 \<le> year date1 + (ny + (nm + month date1 - 1) div 12)
        \<and> year date1 + (ny + (nm + month date1 - 1) div 12) \<le> 9999
        \<and> days_in_month (year date1 + (ny + (nm + month date1 - 1) div 12))
              ((nm + month date1 - 1) mod 12 + 1) < day date1 \<longrightarrow>
          add_time_from_str date1 dt_str = Inl (ValueError ''day is out of range for month''))"
proof -
  define y2 where "y2 = year date1 + (ny + (nm + month date1 - 1) div 12)"
  define m2 where "m2 = (nm + month date1 - 1) mod 12 + 1"
  have eq: "add_time_from_str date1 dt_str = mk_datetime y2 m2 (day date1) (hour date1) 0 0 0"
    using assms by (auto simp: add_time_from_str_def y2_def m2_def)
  have m: "1 \<le> m2" "m2 \<le> 12"
    by (simp_all add: m2_def)
  have a: "\<forall>date2. add_time_from_str date1 dt_str = Inr date2 \<longrightarrow>
          year date2 = y2 \<and> month date2 = m2
          \<and> day date2 = day date1 \<and> hour date2 = hour date1
          \<and> minute date2 = 0 \<and> second date2 = 0 \<and> microsecond date2 = 0"
    unfolding eq using mk_datetime_Inr by fastforce
  have b: "1 \<le> y2 \<and> y2 \<le> 9999 \<and> days_in_month y2 m2 < day date1 \<longrightarrow>
          add_time_from_str date1 dt_str = Inl (ValueError ''day is out of range for month'')"
    unfolding eq using mk_datetime_bad_day m by blast
  from eq a b show ?thesis unfolding y2_def m2_def by blast
qed

theorem add_time_ym_form_witness:
  "ym_loop ''1m'' (enumerate 0 ''1m'') (0, 0, 0, 0) = Inr (0, 0, 1, 1)
   \<and> add_time_from_str (at_hour 2020 3 15 7) ''1m'' = Inr (at_hour 2020 4 15 7)
   \<and> add_time_from_str (at_hour 2020 1 31 7) ''1m'' =
       Inl (ValueError ''day is out of range for month'')"
proof -
  have h1: "ym_loop ''1m'' (enumerate 0 ''1m'') (0, 0, 0, 0) = Inr (0, 0, 1, 1)"
    by code_simp
  have h2: "(0::nat) \<noteq> 0 \<or> (1::nat) \<noteq> 0" by simp
  note t = add_time_ym_form[OF h1 h2]
  have "add_time_from_str (at_hour 2020 3 15 7) ''1m'' =
      mk_datetime (year (at_hour 2020 3 15 7) + (0 + (1 + month (at_hour 2020 3 15 7) - 1) div 12))
        ((1 + month (at_hour 2020 3 15 7) - 1) mod 12 + 1) (day (at_hour 2020 3 15 7))
        (hour (at_hour 2020 3 15 7)) 0 0 0"
    using t[of "at_hour 2020 3 15 7"] by (rule conjunct1)
  also have "\<dots> = Inr (at_hour 2020 4 15 7)" by code_simp
  finally have a: "add_time_from_str (at_hour 2020 3 15 7) ''1m'' = Inr (at_hour 2020 4 15 7)" .
  have "add_time_from_str (at_hour 2020 1 31 7) ''1m'' =
      mk_datetime (year (at_hour 2020 1 31 7) + (0 + (1 + month (at_hour 2020 1 31 7) - 1) div 12))
        ((1 + month (at_hour 2020 1 31 7) - 1) mod 12 + 1) (day (at_hour 2020 1 31 7))
        (hour (at_hour 2020 1 31 7)) 0 0 0"
    using t[of "at_hour 2020 1 31 7"] by (rule conjunct1)
  also have "\<dots> = Inl (ValueError ''day is out of range for month'')" by code_simp
  finally have b: "add_time_from_str (at_hour 2020 1 31 7) ''1m'' =
      Inl (ValueError ''day is out of range for month'')" .
  from h1 a b show ?thesis by blast
qed

theorem add_time_ym_form_counterexample:
  "add_time_from_str \<lparr>year = 2020, month = 1, day = 31, hour = 7, minute = 0, second = 0,
      microsecond = 0\<rparr> ''1m'' = Inl (ValueError ''day is out of range for month'')
   \<and> add_time_from_str \<lparr>year = 2020, month = 3, day = 15, hour = 7, minute = 30, second = 20,
      microsecond = 0\<rparr> ''1m'' =
     Inr \<lparr>year = 2020, month = 4, day = 15, hour = 7, minute = 0, second = 0, microsecond = 0\<rparr>"
  by (intro conjI; code_simp)

subsection \<open>The output-window filter\<close>

lemma keep_loop_filter:
  "\<forall>g \<in> set gs. has_threshold g \<Longrightarrow>
   keep_loop h gs out = Inr (out @ filter (\<lambda>g. threshold g \<le> of_int h) gs)"
  by (induction gs arbitrary: out)
     (auto simp: has_threshold_def threshold_def split: option.splits)

lemma keep_loop_Inr:
  "keep_loop h gs out = Inr res \<Longrightarrow> \<forall>g \<in> set gs. has_threshold g"
proof (induction gs arbitrary: out)
  case Nil
  then show ?case by simp
next
  case (Cons a gs)
  from Cons.prems obtain hc where hc: "hcomb a = Some hc" "3 \<le> length hc"
    by (auto split: option.splits if_splits)
  from Cons.prems hc have "\<exists>out'. keep_loop h gs out' = Inr res"
    by (auto split: if_splits)
  with Cons.IH have "\<forall>g \<in> set gs. has_threshold g" by blast
  with hc show ?case by (simp add: has_threshold_def)
qed

lemma check_gribout_result:
  assumes "\<forall>g \<in> set (get_gribouts self). has_threshold g"
  shows "check_gribout self =
     (let kept = filter (\<lambda>g. threshold g \<le> of_int (total_hours (runtime self))) (get_gribouts self)
      in if kept \<noteq> [] then
           (Inr (), upd_INPUT_IO (\<lambda>f. f\<lparr>gribout := Some (Blocks kept),
                       ioctl := (ioctl f)\<lparr>ngribout := Some (int (length kept))\<rparr>\<rparr>) self)
         else if get_gribouts self \<noteq> [] then
           (Inr (), upd_INPUT_IO (\<lambda>f. f\<lparr>gribout := None\<rparr>) self)
         else (Inr (), self))"
  using keep_loop_filter[OF assms, of "total_hours (runtime self)" "[]"]
  by (simp add: check_gribout_def Let_def upd_INPUT_IO_def)

text \<open>
  Claim C5. As stated (a block is kept if and only if the chunk duration in hours is at
  least its threshold) the claim fails for a duration that is not a whole number of hours:
  the method compares the threshold with \<^verbatim>\<open>total_seconds() // 3600.0\<close>, the duration
  rounded down to whole hours, so a chunk of half an hour loses a block whose threshold is
  half an hour. What holds: when every output block has a threshold, \<^verbatim>\<open>_check_gribout\<close>
  keeps exactly the blocks whose threshold is at most the chunk duration in whole hours,
  rounded down. If any is kept, the kept list becomes the \<^verbatim>\<open>gribout\<close> entry and
  \<^verbatim>\<open>ngribout\<close> its length; if none is kept and there were blocks, the \<^verbatim>\<open>gribout\<close> entry
  is removed and \<^verbatim>\<open>ngribout\<close> is left as it was; with no block at all nothing changes.
\<close>

theorem check_gribout_filter:
  assumes "\<forall>g \<in> set (get_gribouts self). has_threshold g"
  shows "check_gribout self =
     (let kept = filter (\<lambda>g. threshold g \<le> of_int (total_hours (runtime self))) (get_gribouts self)
      in if kept \<noteq> [] then
           (Inr (), upd_INPUT_IO (\<lambda>f. f\<lparr>gribout := Some (Blocks kept),
                       ioctl := (ioctl f)\<lparr>ngribout := Some (int (length kept))\<rparr>\<rparr>) self)
         else if get_gribouts self \<noteq> [] then
           (Inr (), upd_INPUT_IO (\<lambda>f. f\<lparr>gribout := None\<rparr>) self)
         else (Inr (), self))"
  using assms by (rule check_gribout_result)

theorem check_gribout_filter_witness:
  "list_all has_threshold (get_gribouts ((example_init True)\<lparr>runtime := 72 * 3600000000\<rparr>))
   \<and> list_all has_threshold (get_gribouts (example_init True))
   \<and> map threshold (get_gribouts (example_init True)) = [48]
   \<and> gribout (INPUT_IO (nml (snd (check_gribout ((example_init True)\<lparr>runtime := 72 * 3600000000\<rparr>)))))
       = Some (Blocks (get_gribouts (example_init True)))
   \<and> ngribout (ioctl (INPUT_IO (nml (snd (check_gribout
         ((example_init True)\<lparr>runtime := 72 * 3600000000\<rparr>)))))) = Some 1
   \<and> total_hours (runtime (example_init True)) = 24
   \<and> gribout (INPUT_IO (nml (snd (check_gribout (example_init True))))) = None
   \<and> ngribout (ioctl (INPUT_IO (nml (snd (check_gribout (example_init True)))))) = Some 1"
proof -
  let ?s72 = "(example_init True)\<lparr>runtime := 72 * 3600000000\<rparr>"
  let ?s24 = "example_init True"
  have h72: "\<forall>g \<in> set (get_gribouts ?s72). has_threshold g" by code_simp
  have h24: "\<forall>g \<in> set (get_gribouts ?s24). has_threshold g" by code_simp
  have th: "map threshold (get_gribouts ?s24) = [48]" by code_simp
  have g: "get_gribouts ?s72 = get_gribouts ?s24" by code_simp
  have k72: "filter (\<lambda>g. threshold g \<le> of_int (total_hours (runtime ?s72))) (get_gribouts ?s72)
      = get_gribouts ?s24" by code_simp
  have ne: "get_gribouts ?s24 \<noteq> []" by code_simp
  have l: "int (length (get_gribouts ?s24)) = 1" by code_simp
  have k24: "filter (\<lambda>g. threshold g \<le> of_int (total_hours (runtime ?s24))) (get_gribouts ?s24)
      = []" by code_simp
  have hrs: "total_hours (runtime ?s24) = 24" by code_simp
  have n0: "ngribout (ioctl (INPUT_IO (nml ?s24))) = Some 1" by code_simp
  have a: "check_gribout ?s72 =
      (Inr (), upd_INPUT_IO (\<lambda>f. f\<lparr>gribout := Some (Blocks (get_gribouts ?s24)),
         ioctl := (ioctl f)\<lparr>ngribout := Some 1\<rparr>\<rparr>) ?s72)"
    using check_gribout_filter[OF h72] ne unfolding k72 Let_def l by simp
  have b: "check_gribout ?s24 = (Inr (), upd_INPUT_IO (\<lambda>f. f\<lparr>gribout := None\<rparr>) ?s24)"
    using check_gribout_filter[OF h24] ne unfolding k24 Let_def by simp
  show ?thesis
    using h72 h24 th hrs n0 unfolding a b by (simp add: upd_INPUT_IO_def list_all_iff)
qed

theorem check_gribout_half_hour_counterexample:
  "fst (init_dates None None half_hour_case) = Inr ()
   \<and> total_seconds (runtime half_hour_init) / 3600 = 1 / 2
   \<and> total_hours (runtime half_hour_init) = 0
   \<and> list_all has_threshold (get_gribouts half_hour_init)
   \<and> map threshold (get_gribouts half_hour_init) = [1 / 2]
   \<and> fst (check_gribout half_hour_init) = Inr ()
   \<and> gribout (INPUT_IO (nml (snd (check_gribout half_hour_init)))) = None"
  by (intro conjI; code_simp)

text \<open>
  Claim C9. Running \<^verbatim>\<open>_check_gribout\<close> a second time on the object the first run left
  behind returns what the first run returned and leaves the object, namelists included,
  exactly as the first run left it.
\<close>

theorem check_gribout_twice:
  "check_gribout (snd (check_gribout self)) = check_gribout self"
proof (cases "keep_loop (total_hours (runtime self)) (get_gribouts self) []")
  case (Inl e)
  then show ?thesis by (simp add: check_gribout_def Let_def)
next
  case (Inr out)
  have ok: "\<forall>g \<in> set (get_gribouts self). has_threshold g"
    using keep_loop_Inr[OF Inr] .
  define kept where
    "kept = filter (\<lambda>g. threshold g \<le> of_int (total_hours (runtime self))) (get_gribouts self)"
  show ?thesis
  proof (cases "kept = []")
    case True
    show ?thesis
    proof (cases "get_gribouts self = []")
      case True
      with \<open>kept = []\<close> have "check_gribout self = (Inr (), self)"
        using check_gribout_result[OF ok] by (simp add: Let_def kept_def)
      then show ?thesis by simp
    next
      case False
      define s1 where "s1 = upd_INPUT_IO (\<lambda>f. f\<lparr>gribout := None\<rparr>) self"
      have 1: "check_gribout self = (Inr (), s1)"
        using check_gribout_result[OF ok] False \<open>kept = []\<close>
        by (simp add: Let_def kept_def s1_def)
      have g1: "get_gribouts s1 = []"
        by (simp add: s1_def get_gribouts_def upd_INPUT_IO_def)
      have "check_gribout s1 = (Inr (), s1)"
        by (simp add: check_gribout_def Let_def g1)
      with 1 show ?thesis by simp
    qed
  next
    case False
    define s1 where "s1 = upd_INPUT_IO (\<lambda>f. f\<lparr>gribout := Some (Blocks kept),
                       ioctl := (ioctl f)\<lparr>ngribout := Some (int (length kept))\<rparr>\<rparr>) self"
    have 1: "check_gribout self = (Inr (), s1)"
      using check_gribout_result[OF ok] False by (simp add: Let_def kept_def s1_def)
    have g1: "get_gribouts s1 = kept"
      by (simp add: s1_def get_gribouts_def upd_INPUT_IO_def)
    have rt: "runtime s1 = runtime self" by (simp add: s1_def upd_INPUT_IO_def)
    have ok1: "\<forall>g \<in> set (get_gribouts s1). has_threshold g"
      using ok by (simp add: g1 kept_def)
    have again: "filter (\<lambda>g. threshold g \<le> of_int (total_hours (runtime self))) kept = kept"
      by (simp add: kept_def)
    have same: "upd_INPUT_IO (\<lambda>f. f\<lparr>gribout := Some (Blocks kept),
                       ioctl := (ioctl f)\<lparr>ngribout := Some (int (length kept))\<rparr>\<rparr>) s1 = s1"
      by (simp add: s1_def upd_INPUT_IO_def)
    have "check_gribout s1 = (Inr (), s1)"
      using check_gribout_result[OF ok1] False
      by (simp add: Let_def g1 rt again same)
    with 1 show ?thesis by simp
  qed
qed

subsection \<open>The resource layout\<close>

text \<open>
  Claim C6. With the three task counts present, \<^verbatim>\<open>_build_proc_config\<close> sets the node
  count to \<open>(nprocx * nprocy + lnd_ntasks) div 12\<close> and writes exactly two lines to
  \<^verbatim>\<open>proc_config\<close>: ranks \<open>0\<close> to \<open>nprocx * nprocy - 1\<close> for the atmosphere executable,
  then ranks \<open>nprocx * nprocy\<close> to one below the total for the coupler executable. For
  4, 3 and 12 the total is 24, the node count 2 and the ranges are 0-11 and 12-23.
\<close>

theorem build_proc_config_layout:
  assumes "nprocx (runctl (INPUT_ORG (nml self))) = Some px"
    and "nprocy (runctl (INPUT_ORG (nml self))) = Some py"
    and "lnd_ntasks (ccsm_pes (drv_in (nml self))) = Some n_cesm"
  shows "build_proc_config self =
      (Inr (), self\<lparr>n_nodes := (px * py + n_cesm) div 12,
                    proc_config := rank_line 0 (px * py - 1) (COSMO_exe self)
                                   @ rank_line (px * py) (px * py + n_cesm - 1) (CESM_exe self)\<rparr>)
    \<and> (px = 4 \<and> py = 3 \<and> n_cesm = 12 \<longrightarrow>
         px * py + n_cesm = 24
         \<and> n_nodes (snd (build_proc_config self)) = 2
         \<and> proc_config (snd (build_proc_config self)) =
             ''0-11 ./'' @ COSMO_exe self @ [CHR 0x0A] @ ''12-23 ./'' @ CESM_exe self @ [CHR 0x0A])"
proof -
  have s: "str_int 0 = ''0''" "str_int 11 = ''11''" "str_int 12 = ''12''" "str_int 23 = ''23''"
    by code_simp+
  show ?thesis using assms
    by (simp add: build_proc_config_def n_tasks_per_node_def Let_def rank_line_def s)
qed

theorem build_proc_config_layout_witness:
  "nprocx (runctl (INPUT_ORG (nml (example_case True)))) = Some 4
   \<and> nprocy (runctl (INPUT_ORG (nml (example_case True)))) = Some 3
   \<and> lnd_ntasks (ccsm_pes (drv_in (nml (example_case True)))) = Some 12
   \<and> n_nodes (snd (build_proc_config (example_case True))) = 2
   \<and> proc_config (snd (build_proc_config (example_case True))) =
       ''0-11 ./cosmo'' @ [CHR 0x0A] @ ''12-23 ./cesm.exe'' @ [CHR 0x0A]"
proof -
  have h1: "nprocx (runctl (INPUT_ORG (nml (example_case True)))) = Some 4" by code_simp
  have h2: "nprocy (runctl (INPUT_ORG (nml (example_case True)))) = Some 3" by code_simp
  have h3: "lnd_ntasks (ccsm_pes (drv_in (nml (example_case True)))) = Some 12" by code_simp
  have e: "COSMO_exe (example_case True) = ''cosmo''" "CESM_exe (example_case True) = ''cesm.exe''"
    by (simp_all add: example_case_def)
  have l: "rank_line 0 11 ''cosmo'' @ rank_line 12 23 ''cesm.exe'' =
      ''0-11 ./cosmo'' @ [CHR 0x0A] @ ''12-23 ./cesm.exe'' @ [CHR 0x0A]"
    by code_simp
  from build_proc_config_layout[OF h1 h2 h3] h1 h2 h3 show ?thesis
    by (simp add: e l)
qed

subsection \<open>The restart chain\<close>

text \<open>
  Claim C10. When the chunk start date is not before the case end date,
  \<^verbatim>\<open>set_next_run\<close> returns \<^verbatim>\<open>False\<close> and the object is unchanged: namelists in memory,
  namelist files, controller script and every attribute are as before.
\<close>

theorem set_next_run_terminal:
  assumes "end_date self = Some e" and "\<not> dt_less (run_start_date self) e"
  shows "set_next_run self = (Inr False, self)"
  using assms by (simp add: set_next_run_def)

theorem set_next_run_terminal_witness:
  "end_date (snd (compute_run_dates example_last)) = Some (at_hour 2020 1 3 0)
   \<and> \<not> dt_less (run_start_date (snd (compute_run_dates example_last))) (at_hour 2020 1 3 0)
   \<and> set_next_run (snd (compute_run_dates example_last))
       = (Inr False, snd (compute_run_dates example_last))"
proof -
  have e: "end_date (snd (compute_run_dates example_last)) = Some (at_hour 2020 1 3 0)"
    by code_simp
  have l: "\<not> dt_less (run_start_date (snd (compute_run_dates example_last))) (at_hour 2020 1 3 0)"
    by code_simp
  from set_next_run_terminal[OF e l] e l show ?thesis by blast
qed

lemma set_restart_fields_ok:
  assumes "ydir_restart_out (ioctl (INPUT_IO (nml self))) = Some dir"
    and "py_int (strftime (run_end_date self) date_fmt_cesm) = Inr ymd"
  shows "fst (set_restart_fields self) = Inr ()"
    and "hstart (runctl (INPUT_ORG (nml (snd (set_restart_fields self))))) =
           Some (total_hours (dt_sub (run_end_date self) (start_date self)))"
    and "start_ymd (seq_timemgr_inparm (drv_in (nml (snd (set_restart_fields self))))) = Some ymd"
    and "ydirini (gribin (INPUT_IO (nml (snd (set_restart_fields self))))) = Some dir"
    and "start_type (seq_infodata_inparm (drv_in (nml (snd (set_restart_fields self))))) =
           Some ''continue''"
    and "get_gribouts (snd (set_restart_fields self)) =
           map (\<lambda>g. g\<lparr>lwrite_const := Some False\<rparr>) (get_gribouts self)"
  using assms
  by (simp_all add: set_restart_fields_def Let_def upd_runctl_def upd_drv_in_def upd_INPUT_IO_def
      get_gribouts_def clear_lwrite_const_def split: option.splits gribout_val.splits)

lemma set_next_run_nml:
  assumes "end_date self = Some e" and "dt_less (run_start_date self) e"
    and "fst (set_restart_fields self) = Inr ()"
  shows "nml (snd (set_next_run self)) = nml (snd (set_restart_fields self))"
    and "disk_nml (snd (set_next_run self)) = nml (snd (set_restart_fields self))"
proof -
  obtain r S where rs: "set_restart_fields self = (r, S)"
    by (cases "set_restart_fields self")
  with assms(3) have r: "r = Inr ()" by simp
  obtain r2 S2 where c: "compute_run_dates (write_open_nml S) = (r2, S2)"
    by (cases "compute_run_dates (write_open_nml S)")
  have n2: "nml S2 = nml S" "disk_nml S2 = nml S"
    using compute_run_dates_nml[of "write_open_nml S"] c by (simp_all add: write_open_nml_def)
  have "nml (snd (set_next_run self)) = nml S \<and> disk_nml (snd (set_next_run self)) = nml S"
    using assms(1,2) rs r c n2
    by (cases r2) (simp_all add: set_next_run_def update_controller_def Let_def)
  then show "nml (snd (set_next_run self)) = nml (snd (set_restart_fields self))"
    and "disk_nml (snd (set_next_run self)) = nml (snd (set_restart_fields self))"
    using rs by simp_all
qed

text \<open>
  Claim C8. As stated (\<^verbatim>\<open>hstart\<close> becomes the previous chunk end minus the case start,
  expressed in hours) the claim fails when that difference is not a whole number of hours:
  the method writes \<^verbatim>\<open>total_seconds() // 3600.0\<close>, the difference rounded down to whole
  hours, so a chunk that ends half an hour after the case start gives \<^verbatim>\<open>hstart\<close> 0, not
  one half. What holds: when \<^verbatim>\<open>set_next_run\<close> proceeds (the chunk start is before the
  case end date) on an object whose chunk end is a date of the library and whose
  \<^verbatim>\<open>ioctl\<close> group names a restart output directory, then in the object it leaves behind,
  whether or not the later recomputation of the dates succeeds: \<^verbatim>\<open>hstart\<close> is the whole
  hours, rounded down, from the case start to the previous chunk end, \<^verbatim>\<open>start_ymd\<close> is the previous chunk end date as the number
  \<open>yyyymmdd\<close>, \<^verbatim>\<open>ydirini\<close> is the restart output directory, every output block is as before
  but with \<^verbatim>\<open>lwrite_const\<close> false, \<^verbatim>\<open>start_type\<close> is \<^verbatim>\<open>continue\<close>, and the namelist files
  on disk hold exactly these namelists.
\<close>

theorem set_next_run_restart_fields:
  assumes "end_date self = Some e" and "dt_less (run_start_date self) e"
    and "ydir_restart_out (ioctl (INPUT_IO (nml self))) = Some dir"
    and "is_datetime (run_end_date self)"
  shows "hstart (runctl (INPUT_ORG (nml (snd (set_next_run self))))) =
           Some (total_hours (dt_sub (run_end_date self) (start_date self)))
    \<and> start_ymd (seq_timemgr_inparm (drv_in (nml (snd (set_next_run self))))) =
           Some (year (run_end_date self) * 10000 + month (run_end_date self) * 100
                 + day (run_end_date self))
    \<and> ydirini (gribin (INPUT_IO (nml (snd (set_next_run self))))) = Some dir
    \<and> get_gribouts (snd (set_next_run self)) =
           map (\<lambda>g. g\<lparr>lwrite_const := Some False\<rparr>) (get_gribouts self)
    \<and> start_type (seq_infodata_inparm (drv_in (nml (snd (set_next_run self))))) =
           Some ''continue''
    \<and> disk_nml (snd (set_next_run self)) = nml (snd (set_next_run self))"
proof -
  have ymd: "py_int (strftime (run_end_date self) date_fmt_cesm) =
      Inr (year (run_end_date self) * 10000 + month (run_end_date self) * 100
           + day (run_end_date self))"
    using is_datetime_bounds[OF assms(4)] by (rule py_int_strftime_cesm)
  note f = set_restart_fields_ok[OF assms(3) ymd]
  note n = set_next_run_nml[OF assms(1,2) f(1)]
  have g: "get_gribouts (snd (set_next_run self)) = get_gribouts (snd (set_restart_fields self))"
    by (simp add: get_gribouts_def n(1))
  show ?thesis
    unfolding g n f by simp
qed

theorem set_next_run_restart_fields_witness:
  "end_date (example_init True) = Some (at_hour 2020 1 3 0)
   \<and> dt_less (run_start_date (example_init True)) (at_hour 2020 1 3 0)
   \<and> ydir_restart_out (ioctl (INPUT_IO (nml (example_init True)))) = Some ''COSMO_output/restart''
   \<and> is_datetime (run_end_date (example_init True))
   \<and> run_end_date (example_init True) = at_hour 2020 1 2 0
   \<and> start_date (example_init True) = at_hour 2020 1 1 0
   \<and> hstart (runctl (INPUT_ORG (nml (snd (set_next_run (example_init True)))))) = Some 24
   \<and> start_ymd (seq_timemgr_inparm (drv_in (nml (snd (set_next_run (example_init True))))))
       = Some 20200102
   \<and> ydirini (gribin (INPUT_IO (nml (snd (set_next_run (example_init True))))))
       = Some ''COSMO_output/restart''
   \<and> map lwrite_const (get_gribouts (snd (set_next_run (example_init True)))) = [Some False]
   \<and> start_type (seq_infodata_inparm (drv_in (nml (snd (set_next_run (example_init True))))))
       = Some ''continue''
   \<and> disk_nml (snd (set_next_run (example_init True))) = nml (snd (set_next_run (example_init True)))"
proof -
  let ?c = "example_init True"
  have h1: "end_date ?c = Some (at_hour 2020 1 3 0)" by code_simp
  have h2: "dt_less (run_start_date ?c) (at_hour 2020 1 3 0)" by code_simp
  have h3: "ydir_restart_out (ioctl (INPUT_IO (nml ?c))) = Some ''COSMO_output/restart''"
    by code_simp
  have h4: "is_datetime (run_end_date ?c)" by code_simp
  have r: "run_end_date ?c = at_hour 2020 1 2 0" by code_simp
  have s: "start_date ?c = at_hour 2020 1 1 0" by code_simp
  have v1: "total_hours (dt_sub (at_hour 2020 1 2 0) (at_hour 2020 1 1 0)) = 24" by code_simp
  have v2: "year (at_hour 2020 1 2 0) * 10000 + month (at_hour 2020 1 2 0) * 100
      + day (at_hour 2020 1 2 0) = 20200102" by code_simp
  have v3: "map lwrite_const (map (\<lambda>g. g\<lparr>lwrite_const := Some False\<rparr>) (get_gribouts ?c))
      = [Some False]" by code_simp
  note t = set_next_run_restart_fields[OF h1 h2 h3 h4, unfolded r s v1 v2]
  from t h1 h2 h3 h4 r s v3 show ?thesis by simp
qed

theorem set_next_run_half_hour_counterexample:
  "end_date half_hour_init = Some (run_end_date half_hour_init)
   \<and> dt_less (run_start_date half_hour_init) (run_end_date half_hour_init)
   \<and> ydir_restart_out (ioctl (INPUT_IO (nml half_hour_init))) = Some ''COSMO_output/restart''
   \<and> is_datetime (run_end_date half_hour_init)
   \<and> total_seconds (dt_sub (run_end_date half_hour_init) (start_date half_hour_init)) / 3600
       = 1 / 2
   \<and> hstart (runctl (INPUT_ORG (nml (snd (set_next_run half_hour_init))))) = Some 0"
  by (intro conjI; code_simp)

text \<open>
  Claim C3. As stated (two calls produce the chunks of 1 and 2 January, the third call
  says there is no further chunk) the claim counts one call too many: the constructor
  already computes the first chunk, and each call of \<^verbatim>\<open>set_next_run\<close> moves to the chunk
  after the one just run. What holds for the case from 2020-01-01-00 to 2020-01-03-00 with
  a run length of one day: the constructed object holds the chunk from 1 to 2 January; the
  first call returns true and leaves the chunk from 2 to 3 January. Without the dummy day
  the second call returns false, and so does a third, which changes nothing. With the dummy
  day the second call returns true and leaves a chunk of one day from 3 to 4 January, and
  the third call returns false and changes nothing.
\<close>

theorem restart_chain_example:
  "chunk (example_init False) = (at_hour 2020 1 1 0, at_hour 2020 1 2 0)
   \<and> fst (set_next_run (example_init False)) = Inr True
   \<and> chunk (snd (set_next_run (example_init False))) = (at_hour 2020 1 2 0, at_hour 2020 1 3 0)
   \<and> fst (set_next_run (snd (set_next_run (example_init False)))) = Inr False
   \<and> set_next_run (snd (set_next_run (snd (set_next_run (example_init False)))))
       = (Inr False, snd (set_next_run (snd (set_next_run (example_init False)))))
   \<and> chunk (example_init True) = (at_hour 2020 1 1 0, at_hour 2020 1 2 0)
   \<and> fst (set_next_run (example_init True)) = Inr True
   \<and> chunk (snd (set_next_run (example_init True))) = (at_hour 2020 1 2 0, at_hour 2020 1 3 0)
   \<and> fst (set_next_run (snd (set_next_run (example_init True)))) = Inr True
   \<and> chunk (snd (set_next_run (snd (set_next_run (example_init True)))))
       = (at_hour 2020 1 3 0, at_hour 2020 1 4 0)
   \<and> runtime (snd (set_next_run (snd (set_next_run (example_init True))))) = us_per_day
   \<and> set_next_run (snd (set_next_run (snd (set_next_run (example_init True)))))
       = (Inr False, snd (set_next_run (snd (set_next_run (example_init True)))))"
  by (intro conjI; code_simp)

theorem restart_chain_counterexample:
  "fst (set_next_run (example_init False)) = Inr True
   \<and> chunk (snd (set_next_run (example_init False))) \<noteq> (at_hour 2020 1 1 0, at_hour 2020 1 2 0)
   \<and> fst (set_next_run (snd (set_next_run (example_init False)))) = Inr False"
  by (intro conjI; code_simp)

end
